theory Spec2Isabelle
  imports Complex_Main
begin

section \<open>Data model (types.ts)\<close>

text \<open>
  The editor keeps its whole state in the hooks of the \<^verbatim>\<open>App\<close> component. Each hook
  and each ref the handlers read or write is a field of the record \<open>AppState\<close>; a handler
  is a function from the state before the event to the state after it. JavaScript numbers
  are modelled as real numbers (no rounding error, no NaN, no infinities), strings as
  character lists, \<^verbatim>\<open>null\<close>/\<^verbatim>\<open>undefined\<close> as \<open>None\<close>.
  Field names of \<^verbatim>\<open>CanvasElement\<close>, \<^verbatim>\<open>Page\<close>, \<^verbatim>\<open>SelectionState\<close> and
  \<^verbatim>\<open>HistoryState\<close> carry a prefix, since \<^verbatim>\<open>id\<close>, \<^verbatim>\<open>x\<close>, \<^verbatim>\<open>y\<close> and the names shared
  between two interfaces cannot be record fields here.
\<close>

datatype ElementType = TEXT | RECTANGLE | CIRCLE | LINE | XY_GRAPH | XY_GRAPH_1Q | IMAGE

datatype TextAlign = AlignLeft | AlignCenter | AlignRight

record CanvasElement =
  el_id :: string
  el_pageId :: string
  el_type :: ElementType
  el_x :: real
  el_y :: real
  el_width :: real
  el_height :: real
  el_rotation :: "real option"
  el_content :: "string option"
  el_src :: "string option"
  el_backgroundColor :: "string option"
  el_borderColor :: "string option"
  el_borderWidth :: "real option"
  el_fontSize :: "real option"
  el_fontFamily :: "string option"
  el_fontWeight :: "string option"
  el_color :: "string option"
  el_textAlign :: "TextAlign option"
  el_opacity :: "real option"
  el_padding :: "real option"

record SelectionState =
  sel_id :: "string option"
  isEditingText :: bool

record Page =
  page_id :: string

record ProjectFile =
  pf_fileName :: "string option"
  pf_pages :: "Page list option"
  pf_elements :: "CanvasElement list option"
  pf_markupData :: "(string \<rightharpoonup> string) option"
  pf_snapToGrid :: "bool option"

section \<open>Application state (App.tsx)\<close>

definition GRID_SIZE :: real where
  "GRID_SIZE = 20"

record HistoryState =
  h_elements :: "CanvasElement list"
  h_markup :: "string \<rightharpoonup> string"
  h_pages :: "Page list"

record DragState =
  isDragging :: bool
  isResizing :: bool
  isRotating :: bool
  resizeHandle :: "string option"
  startX :: real
  startY :: real
  initialElement :: "CanvasElement option"

datatype MarkupTool = Pen | Eraser

record AppState =
  pages :: "Page list"
  elements :: "CanvasElement list"
  selection :: SelectionState
  scale :: real
  snapToGrid :: bool
  activePageId :: string
  fileName :: string
  isMarkupMode :: bool
  markupTool :: MarkupTool
  markupColor :: string
  markupWidth :: real
  markupData :: "string \<rightharpoonup> string"
  showDeletePageDialog :: bool
  isDrawingRef :: bool
  lastDrawPosRef :: "(real \<times> real) option"
  currentDrawingPageIdRef :: "string option"
  past :: "HistoryState list"
  future :: "HistoryState list"
  dragState :: "DragState option"
  historySnapshot :: "HistoryState option"
  dragInteractedRef :: bool
  lastClickRef :: "(string \<times> real) option"

text \<open>
  What the handlers read from the page: the bounding rectangle (left, top) of each mounted
  page element, and for each mounted ink canvas its bounding rectangle, whether a 2d
  context is available, and the encoding \<^verbatim>\<open>toDataURL()\<close> returns for its current pixels.
\<close>

record Canvas =
  cv_left :: real
  cv_top :: real
  cv_hasContext :: bool
  cv_dataURL :: string

record Dom =
  pageRefs :: "string \<rightharpoonup> (real \<times> real)"
  markupCanvasRefs :: "string \<rightharpoonup> Canvas"

record PointerEvent =
  clientX :: real
  clientY :: real

definition noSelection :: SelectionState where
  "noSelection = \<lparr>sel_id = None, isEditingText = False\<rparr>"

text \<open>A string is truthy in JavaScript unless it is absent or empty.\<close>

definition truthy :: "string option \<Rightarrow> bool" where
  "truthy v = (case v of None \<Rightarrow> False | Some t \<Rightarrow> t \<noteq> [])"

subsection \<open>History helpers\<close>

definition getCurrentState :: "AppState \<Rightarrow> HistoryState" where
  "getCurrentState s =
     \<lparr>h_elements = elements s, h_markup = markupData s, h_pages = pages s\<rparr>"

definition saveHistory :: "AppState \<Rightarrow> AppState" where
  "saveHistory s = s\<lparr>past := past s @ [getCurrentState s], future := []\<rparr>"

definition restoreState :: "HistoryState \<Rightarrow> AppState \<Rightarrow> AppState" where
  "restoreState h s =
     s\<lparr>elements := h_elements h, pages := h_pages h, markupData := h_markup h\<rparr>"

definition handleUndo :: "AppState \<Rightarrow> AppState" where
  "handleUndo s =
     (if past s = [] then s
      else
        let previous = last (past s);
            newPast = butlast (past s);
            s1 = s\<lparr>future := future s @ [getCurrentState s], past := newPast\<rparr>;
            s2 = restoreState previous s1
        in if truthy (sel_id (selection s)) \<and>
              find (\<lambda>e. Some (el_id e) = sel_id (selection s)) (h_elements previous) = None
           then s2\<lparr>selection := noSelection\<rparr>
           else s2)"

definition handleRedo :: "AppState \<Rightarrow> AppState" where
  "handleRedo s =
     (if future s = [] then s
      else
        let next = last (future s);
            newFuture = butlast (future s);
            s1 = s\<lparr>past := past s @ [getCurrentState s], future := newFuture\<rparr>
        in restoreState next s1)"

subsection \<open>Project load\<close>

text \<open>
  \<^verbatim>\<open>JSON.parse\<close> is a library function: its outcome on the text of the file is part of
  the input. It throws, or returns \<^verbatim>\<open>null\<close>, or returns an object whose fields may each
  be absent. \<open>pf_fileName\<close> is \<^verbatim>\<open>project.metadata?.fileName\<close>.
\<close>

datatype JsonParse = ParseThrows | ParsedNull | ParsedProject ProjectFile

record FileInput =
  file_name :: string
  file_parse :: JsonParse

text \<open>\<^verbatim>\<open>String.prototype.replace\<close> with a string pattern: the first occurrence only.\<close>

fun replaceFirst :: "string \<Rightarrow> string \<Rightarrow> string \<Rightarrow> string" where
  "replaceFirst pat rep [] = (if pat = [] then rep else [])"
| "replaceFirst pat rep (c # cs) =
     (if take (length pat) (c # cs) = pat then rep @ drop (length pat) (c # cs)
      else c # replaceFirst pat rep cs)"

definition loadFailedAlert :: string where
  "loadFailedAlert = ''Failed to load project file. It may be corrupted or invalid.''"

definition fallbackFileName :: "FileInput \<Rightarrow> string" where
  "fallbackFileName file =
     replaceFirst ''.json'' [] (replaceFirst ''.engpaper'' [] (file_name file))"

text \<open>
  The result pairs the message passed to \<^verbatim>\<open>alert\<close> in the catch block (if any) with the
  state after \<^verbatim>\<open>reader.onload\<close> has run.
\<close>

definition handleLoadProject :: "FileInput \<Rightarrow> AppState \<Rightarrow> string option \<times> AppState" where
  "handleLoadProject file s =
     (case file_parse file of
        ParseThrows \<Rightarrow> (Some loadFailedAlert, s)
      | ParsedNull \<Rightarrow> (Some loadFailedAlert, s)
      | ParsedProject project \<Rightarrow>
          (case pf_pages project of
             None \<Rightarrow> (Some loadFailedAlert, s)
           | Some ps \<Rightarrow>
              (case pf_elements project of
                 None \<Rightarrow> (Some loadFailedAlert, s)
               | Some es \<Rightarrow>
                  let s1 = saveHistory s;
                      s2 = s1\<lparr>pages := ps, elements := es,
                             markupData := (case pf_markupData project of
                                              None \<Rightarrow> Map.empty | Some m \<Rightarrow> m),
                             snapToGrid := (case pf_snapToGrid project of
                                              None \<Rightarrow> False | Some b \<Rightarrow> b)\<rparr>;
                      s3 = (case pf_fileName project of
                              None \<Rightarrow> s2\<lparr>fileName := fallbackFileName file\<rparr>
                            | Some n \<Rightarrow>
                                if n \<noteq> [] then s2\<lparr>fileName := n\<rparr>
                                else s2\<lparr>fileName := fallbackFileName file\<rparr>);
                      s4 = s3\<lparr>selection := noSelection\<rparr>;
                      s5 = (case ps of [] \<Rightarrow> s4 | p # _ \<Rightarrow> s4\<lparr>activePageId := page_id p\<rparr>)
                  in (None, s5))))"

subsection \<open>Pages\<close>

text \<open>The fresh identifier \<^verbatim>\<open>uuidv4()\<close> returns is an argument of the handler.\<close>

definition handleAddPage :: "string \<Rightarrow> AppState \<Rightarrow> AppState" where
  "handleAddPage newPageId s =
     (saveHistory s)\<lparr>pages := pages s @ [\<lparr>page_id = newPageId\<rparr>],
                     activePageId := newPageId\<rparr>"

fun findIndex :: "('a \<Rightarrow> bool) \<Rightarrow> 'a list \<Rightarrow> int" where
  "findIndex P [] = - 1"
| "findIndex P (a # as) =
     (if P a then 0 else (let i = findIndex P as in if i < 0 then - 1 else i + 1))"

text \<open>
  \<^verbatim>\<open>newPages[k].id\<close> throws a TypeError when \<open>k\<close> is not an index of \<open>newPages\<close>. The
  error carries the state left by the setters that ran before the throw.
\<close>

datatype error = TypeError AppState

definition confirmRemovePage :: "AppState \<Rightarrow> error + AppState" where
  "confirmRemovePage s =
     (if length (pages s) \<le> 1 then Inr s
      else
        let s1 = saveHistory s;
            pageToRemove = activePageId s;
            index = findIndex (\<lambda>p. page_id p = pageToRemove) (pages s);
            newPages = filter (\<lambda>p. page_id p \<noteq> pageToRemove) (pages s);
            k = nat (max 0 (index - 1))
        in if k < length newPages
           then Inr (s1\<lparr>pages := newPages,
                        activePageId := page_id (newPages ! k),
                        elements := filter (\<lambda>el. el_pageId el \<noteq> pageToRemove) (elements s),
                        markupData := (markupData s)(pageToRemove := None),
                        showDeletePageDialog := False\<rparr>)
           else Inl (TypeError s1))"

definition handleRemovePageTrigger :: "AppState \<Rightarrow> AppState" where
  "handleRemovePageTrigger s =
     (if length (pages s) \<le> 1 then s else s\<lparr>showDeletePageDialog := True\<rparr>)"

subsection \<open>Elements\<close>

definition handleAddElement :: "ElementType \<Rightarrow> string \<Rightarrow> AppState \<Rightarrow> AppState" where
  "handleAddElement ty new_id s =
     (if isMarkupMode s then s
      else
        let isGraph = (ty = XY_GRAPH \<or> ty = XY_GRAPH_1Q);
            newElement =
              \<lparr>el_id = new_id,
               el_pageId = activePageId s,
               el_type = ty,
               el_x = 100,
               el_y = 100,
               el_width = (if ty = LINE \<or> isGraph then 200 else 160),
               el_height = (if ty = LINE then 10 else (if isGraph then 200 else 100)),
               el_rotation = Some 0,
               el_content = (if ty = TEXT then Some ''Text Box'' else None),
               el_src = None,
               el_backgroundColor = Some ''transparent'',
               el_borderColor = Some ''#2f4f4f'',
               el_borderWidth = Some 2,
               el_fontSize = Some 24,
               el_fontFamily = Some ''Patrick Hand'',
               el_fontWeight = Some ''400'',
               el_color = Some ''#000000'',
               el_textAlign = Some AlignLeft,
               el_opacity = None,
               el_padding = Some 8\<rparr>
        in (saveHistory s)\<lparr>elements := elements s @ [newElement],
                           selection := \<lparr>sel_id = Some new_id, isEditingText = False\<rparr>\<rparr>)"

definition handleAddImage :: "string \<Rightarrow> real \<Rightarrow> real \<Rightarrow> string \<Rightarrow> AppState \<Rightarrow> AppState" where
  "handleAddImage src w h new_id s =
     (if isMarkupMode s then s
      else
        let newElement =
              \<lparr>el_id = new_id,
               el_pageId = activePageId s,
               el_type = IMAGE,
               el_x = 100,
               el_y = 100,
               el_width = w,
               el_height = h,
               el_rotation = Some 0,
               el_content = None,
               el_src = Some src,
               el_backgroundColor = None,
               el_borderColor = Some ''transparent'',
               el_borderWidth = Some 0,
               el_fontSize = None,
               el_fontFamily = None,
               el_fontWeight = None,
               el_color = None,
               el_textAlign = None,
               el_opacity = Some 1,
               el_padding = None\<rparr>
        in (saveHistory s)\<lparr>elements := elements s @ [newElement],
                           selection := \<lparr>sel_id = Some new_id, isEditingText = False\<rparr>\<rparr>)"

text \<open>
  A \<^verbatim>\<open>Partial<CanvasElement>\<close> is passed as the function \<open>upd\<close> that overwrites the
  fields it sets: \<open>upd el\<close> is \<^verbatim>\<open>{ ...el, ...updates }\<close>.
\<close>

definition handleUpdateElement ::
  "string \<Rightarrow> (CanvasElement \<Rightarrow> CanvasElement) \<Rightarrow> AppState \<Rightarrow> AppState" where
  "handleUpdateElement i upd s =
     s\<lparr>elements := map (\<lambda>el. if el_id el = i then upd el else el) (elements s)\<rparr>"

definition handlePropertyChange :: "(CanvasElement \<Rightarrow> CanvasElement) \<Rightarrow> AppState \<Rightarrow> AppState" where
  "handlePropertyChange upd s =
     (case sel_id (selection s) of
        None \<Rightarrow> s
      | Some i \<Rightarrow> if i = [] then s else handleUpdateElement i upd (saveHistory s))"

definition handleDelete :: "AppState \<Rightarrow> AppState" where
  "handleDelete s =
     (if truthy (sel_id (selection s))
      then (saveHistory s)\<lparr>elements :=
                              filter (\<lambda>el. Some (el_id el) \<noteq> sel_id (selection s)) (elements s),
                            selection := noSelection\<rparr>
      else s)"

definition toggleSnap :: "AppState \<Rightarrow> AppState" where
  "toggleSnap s = s\<lparr>snapToGrid := \<not> snapToGrid s\<rparr>"

definition handleToggleMarkup :: "AppState \<Rightarrow> AppState" where
  "handleToggleMarkup s =
     (if \<not> isMarkupMode s then s\<lparr>selection := noSelection, isMarkupMode := True\<rparr>
      else s\<lparr>isMarkupMode := False\<rparr>)"

definition handleBackgroundClick :: "string \<Rightarrow> AppState \<Rightarrow> AppState" where
  "handleBackgroundClick pageId s = s\<lparr>activePageId := pageId, selection := noSelection\<rparr>"

subsection \<open>Ink layer\<close>

text \<open>
  Coordinates divide by \<open>scale\<close>. The viewport handlers keep \<open>scale\<close> within 0.25 and 4,
  so the division by zero that HOL defines as 0 is never reached from them.
\<close>

definition getCanvasCoords :: "Dom \<Rightarrow> AppState \<Rightarrow> PointerEvent \<Rightarrow> string \<Rightarrow> real \<times> real" where
  "getCanvasCoords dm s e pageId =
     (case markupCanvasRefs dm pageId of
        None \<Rightarrow> (0, 0)
      | Some canvas \<Rightarrow>
          ((clientX e - cv_left canvas) / scale s, (clientY e - cv_top canvas) / scale s))"

definition handlePointerDownMarkup ::
  "Dom \<Rightarrow> PointerEvent \<Rightarrow> string \<Rightarrow> AppState \<Rightarrow> AppState" where
  "handlePointerDownMarkup dm e pageId s =
     (if \<not> isMarkupMode s then s
      else
        let s1 = s\<lparr>activePageId := pageId,
                   historySnapshot := Some (getCurrentState s),
                   currentDrawingPageIdRef := Some pageId\<rparr>
        in case markupCanvasRefs dm pageId of
             None \<Rightarrow> s1
           | Some canvas \<Rightarrow>
               if \<not> cv_hasContext canvas then s1
               else s1\<lparr>isDrawingRef := True,
                       lastDrawPosRef := Some (getCanvasCoords dm s e pageId)\<rparr>)"

definition handlePointerMoveMarkup :: "Dom \<Rightarrow> PointerEvent \<Rightarrow> AppState \<Rightarrow> AppState" where
  "handlePointerMoveMarkup dm e s =
     (if \<not> isDrawingRef s then s
      else if lastDrawPosRef s = None then s
      else if \<not> truthy (currentDrawingPageIdRef s) then s
      else
        case currentDrawingPageIdRef s of
          None \<Rightarrow> s
        | Some pageId \<Rightarrow>
            (case markupCanvasRefs dm pageId of
               None \<Rightarrow> s
             | Some canvas \<Rightarrow>
                 if \<not> cv_hasContext canvas then s
                 else s\<lparr>lastDrawPosRef := Some (getCanvasCoords dm s e pageId)\<rparr>))"

definition handlePointerUpMarkup :: "Dom \<Rightarrow> AppState \<Rightarrow> AppState" where
  "handlePointerUpMarkup dm s =
     (if \<not> isDrawingRef s then s
      else
        let s1 = s\<lparr>isDrawingRef := False, lastDrawPosRef := None\<rparr>;
            s2 = (case currentDrawingPageIdRef s of
                    None \<Rightarrow> s1
                  | Some pageId \<Rightarrow>
                      (case historySnapshot s of
                         None \<Rightarrow> s1
                       | Some snapshot \<Rightarrow>
                           if pageId = [] then s1
                           else
                             let s3 = s1\<lparr>past := past s @ [snapshot], future := []\<rparr>
                             in (case markupCanvasRefs dm pageId of
                                   None \<Rightarrow> s3
                                 | Some canvas \<Rightarrow>
                                     s3\<lparr>markupData :=
                                          (markupData s)(pageId \<mapsto> cv_dataURL canvas)\<rparr>)))
        in s2\<lparr>currentDrawingPageIdRef := None\<rparr>)"

subsection \<open>Pointer interaction\<close>

definition getPointerCoords :: "Dom \<Rightarrow> AppState \<Rightarrow> real \<Rightarrow> real \<Rightarrow> string \<Rightarrow> real \<times> real" where
  "getPointerCoords dm s cX cY pageId =
     (case pageRefs dm pageId of
        None \<Rightarrow> (0, 0)
      | Some (rect_left, rect_top) \<Rightarrow> ((cX - rect_left) / scale s, (cY - rect_top) / scale s))"

text \<open>
  \<open>now\<close> is the value of \<^verbatim>\<open>Date.now()\<close> when the handler runs. \<open>isDoubleClick\<close> is the
  condition of the manual double-click detection: the last pointer-down was on the same
  element less than 300 ms ago.
\<close>

definition isDoubleClick :: "AppState \<Rightarrow> real \<Rightarrow> CanvasElement \<Rightarrow> bool" where
  "isDoubleClick s now element =
     (case lastClickRef s of
        None \<Rightarrow> False
      | Some (i, t) \<Rightarrow> i = el_id element \<and> now - t < 300)"

definition handlePointerDownElement ::
  "Dom \<Rightarrow> PointerEvent \<Rightarrow> real \<Rightarrow> CanvasElement \<Rightarrow> AppState \<Rightarrow> AppState" where
  "handlePointerDownElement dm e now element s =
     (if isMarkupMode s then s
      else
        let s1 = s\<lparr>activePageId := el_pageId element\<rparr>
        in if isEditingText (selection s) \<and> sel_id (selection s) = Some (el_id element) then s1
           else if isDoubleClick s now element \<and> el_type element = TEXT
           then (saveHistory s1)\<lparr>selection := \<lparr>sel_id = Some (el_id element),
                                                isEditingText = True\<rparr>,
                                  dragState := None\<rparr>
           else
             let coords = getPointerCoords dm s (clientX e) (clientY e) (el_pageId element)
             in s1\<lparr>lastClickRef := Some (el_id element, now),
                   selection := \<lparr>sel_id = Some (el_id element), isEditingText = False\<rparr>,
                   historySnapshot := Some (getCurrentState s),
                   dragInteractedRef := False,
                   dragState := Some \<lparr>isDragging = True,
                                      isResizing = False,
                                      isRotating = False,
                                      resizeHandle = None,
                                      startX = fst coords,
                                      startY = snd coords,
                                      initialElement = Some element\<rparr>\<rparr>)"

definition handlePointerDownResize ::
  "Dom \<Rightarrow> PointerEvent \<Rightarrow> string \<Rightarrow> CanvasElement \<Rightarrow> AppState \<Rightarrow> AppState" where
  "handlePointerDownResize dm e handle element s =
     (let coords = getPointerCoords dm s (clientX e) (clientY e) (el_pageId element)
      in s\<lparr>activePageId := el_pageId element,
           historySnapshot := Some (getCurrentState s),
           dragInteractedRef := False,
           dragState := Some \<lparr>isDragging = False,
                              isResizing = True,
                              isRotating = False,
                              resizeHandle = Some handle,
                              startX = fst coords,
                              startY = snd coords,
                              initialElement = Some element\<rparr>\<rparr>)"

definition handlePointerDownRotate ::
  "Dom \<Rightarrow> PointerEvent \<Rightarrow> CanvasElement \<Rightarrow> AppState \<Rightarrow> AppState" where
  "handlePointerDownRotate dm e element s =
     (let coords = getPointerCoords dm s (clientX e) (clientY e) (el_pageId element)
      in s\<lparr>activePageId := el_pageId element,
           historySnapshot := Some (getCurrentState s),
           dragInteractedRef := False,
           dragState := Some \<lparr>isDragging = False,
                              isResizing = False,
                              isRotating = True,
                              resizeHandle = None,
                              startX = fst coords,
                              startY = snd coords,
                              initialElement = Some element\<rparr>\<rparr>)"

definition rotatePoint :: "real \<Rightarrow> real \<Rightarrow> real \<Rightarrow> real \<times> real" where
  "rotatePoint px py angleDeg =
     (let rad = (pi / 180) * angleDeg;
          c = cos rad;
          sn = sin rad
      in (px * c - py * sn, px * sn + py * c))"

text \<open>\<^verbatim>\<open>Math.round\<close> rounds to the nearest integer, halves upwards.\<close>

definition Math_round :: "real \<Rightarrow> real" where
  "Math_round v = of_int \<lfloor>v + 1 / 2\<rfloor>"

text \<open>\<^verbatim>\<open>Math.atan2\<close> on real arguments (no signed zero).\<close>

definition Math_atan2 :: "real \<Rightarrow> real \<Rightarrow> real" where
  "Math_atan2 dy dx =
     (if dx > 0 then arctan (dy / dx)
      else if dx < 0 \<and> dy \<ge> 0 then arctan (dy / dx) + pi
      else if dx < 0 then arctan (dy / dx) - pi
      else if dy > 0 then pi / 2
      else if dy < 0 then - (pi / 2)
      else 0)"

definition snap :: "bool \<Rightarrow> real \<Rightarrow> real" where
  "snap snapOn v = (if snapOn then Math_round (v / GRID_SIZE) * GRID_SIZE else v)"

text \<open>
  The three \<^verbatim>\<open>switch\<close> statements of the resize branch. A handle that is none of the four
  corners leaves the variables at their initial value 0.
\<close>

definition resizeDeltas :: "string option \<Rightarrow> real \<times> real \<Rightarrow> real \<times> real" where
  "resizeDeltas handle localDelta =
     (if handle = Some ''se'' then (fst localDelta, snd localDelta)
      else if handle = Some ''sw'' then (- fst localDelta, snd localDelta)
      else if handle = Some ''ne'' then (fst localDelta, - snd localDelta)
      else if handle = Some ''nw'' then (- fst localDelta, - snd localDelta)
      else (0, 0))"

definition resizeAnchor :: "string option \<Rightarrow> real \<Rightarrow> real \<Rightarrow> real \<times> real" where
  "resizeAnchor handle dW dH =
     (if handle = Some ''se'' then (dW / 2, dH / 2)
      else if handle = Some ''sw'' then (- dW / 2, dH / 2)
      else if handle = Some ''ne'' then (dW / 2, - dH / 2)
      else if handle = Some ''nw'' then (- dW / 2, - dH / 2)
      else (0, 0))"

definition MIN_SIZE :: "bool \<Rightarrow> real" where
  "MIN_SIZE snapOn = (if snapOn then GRID_SIZE else 20)"

text \<open>
  The resize branch of \<^verbatim>\<open>handlePointerMove\<close>: from the snap flag, the handle, the element
  at gesture start and the pointer delta, the \<open>(x, y, width, height)\<close> it passes to
  \<^verbatim>\<open>handleUpdateElement\<close>.
\<close>

definition resizeBranch ::
  "bool \<Rightarrow> string option \<Rightarrow> CanvasElement \<Rightarrow> real \<Rightarrow> real \<Rightarrow> real \<times> real \<times> real \<times> real" where
  "resizeBranch snapOn handle initial deltaX deltaY =
     (let rot = (case el_rotation initial of None \<Rightarrow> 0 | Some r \<Rightarrow> r);
          localDelta = rotatePoint deltaX deltaY (- rot);
          dW0 = fst (resizeDeltas handle localDelta);
          dH0 = snd (resizeDeltas handle localDelta);
          dW1 = (if el_width initial + dW0 < MIN_SIZE snapOn
                 then MIN_SIZE snapOn - el_width initial else dW0);
          dH1 = (if el_height initial + dH0 < MIN_SIZE snapOn
                 then MIN_SIZE snapOn - el_height initial else dH0);
          cShift1 = resizeAnchor handle dW1 dH1;
          finalW1 = el_width initial + dW1;
          finalH1 = el_height initial + dH1;
          finalW = (if snapOn then Math_round (finalW1 / GRID_SIZE) * GRID_SIZE else finalW1);
          finalH = (if snapOn then Math_round (finalH1 / GRID_SIZE) * GRID_SIZE else finalH1);
          cShiftLocal = (if snapOn
                         then resizeAnchor handle (finalW - el_width initial)
                                (finalH - el_height initial)
                         else cShift1);
          cx = el_x initial + el_width initial / 2;
          cy = el_y initial + el_height initial / 2;
          shiftWorld = rotatePoint (fst cShiftLocal) (snd cShiftLocal) rot
      in ((cx + fst shiftWorld) - finalW / 2, (cy + snd shiftWorld) - finalH / 2,
          finalW, finalH))"

definition rotateBranch :: "bool \<Rightarrow> CanvasElement \<Rightarrow> real \<times> real \<Rightarrow> real" where
  "rotateBranch snapOn initial coords =
     (let centerX = el_x initial + el_width initial / 2;
          centerY = el_y initial + el_height initial / 2;
          dx = fst coords - centerX;
          dy = snd coords - centerY;
          angle = Math_atan2 dy dx * (180 / pi) + 90
      in if snapOn then Math_round (angle / 15) * 15 else angle)"

text \<open>
  The listeners for \<^verbatim>\<open>pointermove\<close>, \<^verbatim>\<open>pointerup\<close> and \<^verbatim>\<open>pointercancel\<close> are installed only
  while \<open>dragState\<close> is set. \<^verbatim>\<open>dragState.initialElement!\<close> is set by every pointer-down
  handler; were it absent, reading \<^verbatim>\<open>initial.pageId\<close> would throw after the interaction
  flag is set and before any update.
\<close>

definition handlePointerMove :: "Dom \<Rightarrow> PointerEvent \<Rightarrow> AppState \<Rightarrow> AppState" where
  "handlePointerMove dm e s =
     (case dragState s of
        None \<Rightarrow> s
      | Some ds \<Rightarrow>
         (case sel_id (selection s) of
            None \<Rightarrow> s
          | Some selId \<Rightarrow>
             if selId = [] then s
             else
               let s1 = s\<lparr>dragInteractedRef := True\<rparr>
               in (case initialElement ds of
                    None \<Rightarrow> s1
                  | Some initial \<Rightarrow>
                     let coords = getPointerCoords dm s (clientX e) (clientY e)
                                    (el_pageId initial);
                         deltaX = fst coords - startX ds;
                         deltaY = snd coords - startY ds
                     in if isDragging ds then
                          handleUpdateElement selId
                            (\<lambda>el. el\<lparr>el_x := snap (snapToGrid s) (el_x initial + deltaX),
                                      el_y := snap (snapToGrid s) (el_y initial + deltaY)\<rparr>) s1
                        else if isRotating ds then
                          handleUpdateElement selId
                            (\<lambda>el. el\<lparr>el_rotation :=
                                        Some (rotateBranch (snapToGrid s) initial coords)\<rparr>) s1
                        else if isResizing ds then
                          (case resizeBranch (snapToGrid s) (resizeHandle ds) initial
                                  deltaX deltaY of
                             (nx, ny, nw, nh) \<Rightarrow>
                               handleUpdateElement selId
                                 (\<lambda>el. el\<lparr>el_x := nx, el_y := ny,
                                           el_width := nw, el_height := nh\<rparr>) s1)
                        else s1)))"

definition handlePointerUp :: "AppState \<Rightarrow> AppState" where
  "handlePointerUp s =
     (case dragState s of
        None \<Rightarrow> s
      | Some ds \<Rightarrow>
         (case historySnapshot s of
            None \<Rightarrow> s\<lparr>dragState := None\<rparr>
          | Some snapshot \<Rightarrow>
              if dragInteractedRef s
              then s\<lparr>past := past s @ [snapshot], future := [], dragState := None\<rparr>
              else s\<lparr>dragState := None\<rparr>))"

text \<open>
  One drag gesture with a single move: pointer-down on \<open>element\<close> at \<open>e0\<close>, pointer-move to
  \<open>e1\<close>, pointer-up.
\<close>

definition dragGesture ::
  "Dom \<Rightarrow> PointerEvent \<Rightarrow> PointerEvent \<Rightarrow> real \<Rightarrow> CanvasElement \<Rightarrow> AppState \<Rightarrow> AppState" where
  "dragGesture dm e0 e1 now element s =
     handlePointerUp (handlePointerMove dm e1 (handlePointerDownElement dm e0 now element s))"

text \<open>
  The pointer-moves of one gesture, handled in order: \<open>pointerMoves\<close> for the window
  listener of drag, resize and rotate, \<open>markupMoves\<close> for the ink canvas.
\<close>

fun pointerMoves :: "Dom \<Rightarrow> PointerEvent list \<Rightarrow> AppState \<Rightarrow> AppState" where
  "pointerMoves dm [] s = s"
| "pointerMoves dm (e # es) s = pointerMoves dm es (handlePointerMove dm e s)"

fun markupMoves :: "Dom \<Rightarrow> PointerEvent list \<Rightarrow> AppState \<Rightarrow> AppState" where
  "markupMoves dm [] s = s"
| "markupMoves dm (e # es) s = markupMoves dm es (handlePointerMoveMarkup dm e s)"

subsection \<open>Initial state\<close>

text \<open>
  The state \<^verbatim>\<open>App\<close> starts in when local storage holds no saved document;
  \<open>defaultPageId\<close> is the identifier \<^verbatim>\<open>uuidv4()\<close> returned.
\<close>

definition initialState :: "string \<Rightarrow> AppState" where
  "initialState defaultPageId =
     \<lparr>pages = [\<lparr>page_id = defaultPageId\<rparr>],
      elements = [],
      selection = \<lparr>sel_id = None, isEditingText = False\<rparr>,
      scale = 1,
      snapToGrid = False,
      activePageId = defaultPageId,
      fileName = ''Untitled Project'',
      isMarkupMode = False,
      markupTool = Pen,
      markupColor = ''#000000'',
      markupWidth = 2,
      markupData = Map.empty,
      showDeletePageDialog = False,
      isDrawingRef = False,
      lastDrawPosRef = None,
      currentDrawingPageIdRef = None,
      past = [],
      future = [],
      dragState = None,
      historySnapshot = None,
      dragInteractedRef = False,
      lastClickRef = None\<rparr>"

subsection \<open>Committed mutations\<close>

text \<open>
  \<open>committed s t\<close>: the state \<open>t\<close> is reached from \<open>s\<close> by one committed mutation. The
  elements, ink map and pages of \<open>s\<close> were pushed on \<open>past\<close> as one snapshot and \<open>future\<close>
  was cleared; the document of \<open>t\<close> is whatever the mutation made it.
  \<open>committedRun s ts\<close>: the states \<open>ts\<close> follow \<open>s\<close> by one committed mutation each.
\<close>

definition committed :: "AppState \<Rightarrow> AppState \<Rightarrow> bool" where
  "committed s t \<longleftrightarrow>
     past t = past s @ [\<lparr>h_elements = elements s, h_markup = markupData s,
                          h_pages = pages s\<rparr>] \<and>
     future t = []"

fun committedRun :: "AppState \<Rightarrow> AppState list \<Rightarrow> bool" where
  "committedRun s [] = True"
| "committedRun s (t # ts) = (committed s t \<and> committedRun t ts)"

subsection \<open>Geometry of an element\<close>

definition geometry :: "CanvasElement \<Rightarrow> real \<times> real \<times> real \<times> real \<times> real option" where
  "geometry el = (el_x el, el_y el, el_width el, el_height el, el_rotation el)"

subsection \<open>Example documents\<close>


text \<open>
  A document with one rectangle, selected, on its only page, and a page in which that
  page and its ink canvas are mounted at the origin.
\<close>

definition rectangleDocument :: AppState where
  "rectangleDocument = handleAddElement RECTANGLE ''e1'' (initialState ''p1'')"

definition exampleDom :: Dom where
  "exampleDom =
     \<lparr>pageRefs = [''p1'' \<mapsto> (0, 0)],
      markupCanvasRefs = [''p1'' \<mapsto> \<lparr>cv_left = 0, cv_top = 0, cv_hasContext = True,
                                      cv_dataURL = ''data:ink''\<rparr>]\<rparr>"

text \<open>
  The rectangle of \<open>rectangleDocument\<close>, the same rectangle turned by 45 degrees, and the
  state after pointer-down on the south-east resize handle of the rectangle with snapping
  switched on.
\<close>

definition exampleRectangle :: CanvasElement where
  "exampleRectangle = last (elements rectangleDocument)"

definition rotatedRectangle :: CanvasElement where
  "rotatedRectangle = exampleRectangle\<lparr>el_rotation := Some 45\<rparr>"

definition resizingDocument :: AppState where
  "resizingDocument =
     handlePointerDownResize exampleDom \<lparr>clientX = 260, clientY = 200\<rparr> ''se'' exampleRectangle
       (toggleSnap rectangleDocument)"

text \<open>A document in ink mode whose only page already carries the ink its canvas shows.\<close>

definition inkDocument :: AppState where
  "inkDocument = (handleToggleMarkup (initialState ''p1''))\<lparr>markupData := [''p1'' \<mapsto> ''data:ink'']\<rparr>"



section \<open>History: undo and redo\<close>

lemma undo_step:
  assumes "past s = p @ [h]"
  shows "getCurrentState (handleUndo s) = h"
    and "past (handleUndo s) = p"
    and "future (handleUndo s) = future s @ [getCurrentState s]"
  using assms by (simp_all add: handleUndo_def restoreState_def getCurrentState_def Let_def)

lemma redo_step:
  assumes "future s = f @ [h]"
  shows "getCurrentState (handleRedo s) = h"
    and "future (handleRedo s) = f"
    and "past (handleRedo s) = past s @ [getCurrentState s]"
  using assms by (simp_all add: handleRedo_def restoreState_def getCurrentState_def Let_def)

text \<open>
  Undoing as many times as there are snapshots \<open>hs\<close> on top of \<open>past\<close> walks back to the
  oldest of them and stacks the states passed on \<open>future\<close>, newest at the bottom.
\<close>

lemma undo_iter:
  "past s = p @ hs \<Longrightarrow>
   past ((handleUndo ^^ length hs) s) = p \<and>
   getCurrentState ((handleUndo ^^ length hs) s) = hd (hs @ [getCurrentState s]) \<and>
   future ((handleUndo ^^ length hs) s) = future s @ rev (tl (hs @ [getCurrentState s]))"
proof (induction hs arbitrary: s rule: rev_induct)
  case Nil
  then show ?case by simp
next
  case (snoc h hs)
  from snoc.prems have ps: "past s = (p @ hs) @ [h]" by simp
  have pu: "past (handleUndo s) = p @ hs"
    and cu: "getCurrentState (handleUndo s) = h"
    and fu: "future (handleUndo s) = future s @ [getCurrentState s]"
    using undo_step[OF ps] by simp_all
  have it: "(handleUndo ^^ length (hs @ [h])) s = (handleUndo ^^ length hs) (handleUndo s)"
    by (simp add: funpow_swap1)
  from snoc.IH[OF pu] show ?case
    unfolding it cu fu by (cases hs) simp_all
qed

lemma redo_iter:
  "future s = f @ gs \<Longrightarrow>
   future ((handleRedo ^^ length gs) s) = f \<and>
   getCurrentState ((handleRedo ^^ length gs) s) = hd (gs @ [getCurrentState s]) \<and>
   past ((handleRedo ^^ length gs) s) = past s @ rev (tl (gs @ [getCurrentState s]))"
proof (induction gs arbitrary: s rule: rev_induct)
  case Nil
  then show ?case by simp
next
  case (snoc h gs)
  from snoc.prems have ps: "future s = (f @ gs) @ [h]" by simp
  have pu: "future (handleRedo s) = f @ gs"
    and cu: "getCurrentState (handleRedo s) = h"
    and fu: "past (handleRedo s) = past s @ [getCurrentState s]"
    using redo_step[OF ps] by simp_all
  have it: "(handleRedo ^^ length (gs @ [h])) s = (handleRedo ^^ length gs) (handleRedo s)"
    by (simp add: funpow_swap1)
  from snoc.IH[OF pu] show ?case
    unfolding it cu fu by (cases gs) simp_all
qed

lemma committed_iff:
  "committed s t \<longleftrightarrow> past t = past s @ [getCurrentState s] \<and> future t = []"
  by (simp add: committed_def getCurrentState_def)

lemma getCurrentState_eq_iff:
  "getCurrentState a = getCurrentState b \<longleftrightarrow>
     elements a = elements b \<and> pages a = pages b \<and> markupData a = markupData b"
  by (auto simp add: getCurrentState_def)

lemma committedRun_past:
  "committedRun s ts \<Longrightarrow>
   past (last (s # ts)) = past s @ butlast (map getCurrentState (s # ts)) \<and>
   (ts \<noteq> [] \<longrightarrow> future (last (s # ts)) = [])"
proof (induction ts arbitrary: s)
  case Nil
  then show ?case by simp
next
  case (Cons t ts)
  then have c: "committed s t" and r: "committedRun t ts" by simp_all
  from Cons.IH[OF r] c show ?case
    by (cases ts) (simp_all add: committed_iff)
qed

text \<open>The handlers that commit before they mutate are committed mutations.\<close>

lemma saveHistory_committed:
  "past t = past (saveHistory s) \<Longrightarrow> future t = future (saveHistory s) \<Longrightarrow> committed s t"
  by (simp add: committed_iff saveHistory_def)

lemma handleAddPage_committed: "committed s (handleAddPage i s)"
  by (simp add: committed_iff handleAddPage_def saveHistory_def)

lemma handleAddElement_committed: "\<not> isMarkupMode s \<Longrightarrow> committed s (handleAddElement ty i s)"
  by (simp add: committed_iff handleAddElement_def saveHistory_def Let_def)

lemma handleDelete_committed: "truthy (sel_id (selection s)) \<Longrightarrow> committed s (handleDelete s)"
  by (simp add: committed_iff handleDelete_def saveHistory_def)

lemma handlePropertyChange_committed:
  "truthy (sel_id (selection s)) \<Longrightarrow> committed s (handlePropertyChange upd s)"
  by (auto simp add: committed_iff handlePropertyChange_def handleUpdateElement_def
      saveHistory_def truthy_def split: option.splits)

lemma confirmRemovePage_committed: "confirmRemovePage s = Inr t \<Longrightarrow> t \<noteq> s \<Longrightarrow> committed s t"
  by (auto simp add: committed_iff confirmRemovePage_def saveHistory_def Let_def
      split: if_splits)

lemma handleLoadProject_committed: "handleLoadProject file s = (None, t) \<Longrightarrow> committed s t"
  by (auto simp add: committed_iff handleLoadProject_def saveHistory_def Let_def
      split: JsonParse.splits option.splits list.splits if_splits)

text \<open>
  The inverse law on snapshots: after a run of committed mutations, as many undos give back
  the snapshot and the \<open>past\<close> stack of the start, and as many redos after that the snapshot
  of the end.
\<close>

lemma undo_redo_snapshots:
  assumes run: "committedRun s0 ts"
  shows "getCurrentState ((handleUndo ^^ length ts) (last (s0 # ts))) = getCurrentState s0 \<and>
         past ((handleUndo ^^ length ts) (last (s0 # ts))) = past s0 \<and>
         getCurrentState ((handleRedo ^^ length ts) ((handleUndo ^^ length ts) (last (s0 # ts))))
           = getCurrentState (last (s0 # ts)) \<and>
         (past s = [] \<longrightarrow> handleUndo s = s) \<and>
         (future s = [] \<longrightarrow> handleRedo s = s)"
proof (cases ts)
  case Nil
  then show ?thesis by (simp add: handleUndo_def handleRedo_def)
next
  case (Cons t ts')
  define sn where "sn = last (s0 # ts)"
  define L where "L = map getCurrentState (s0 # ts)"
  define hs where "hs = butlast L"
  have len: "length hs = length ts" by (simp add: hs_def L_def)
  have lastL: "last L = getCurrentState sn" unfolding L_def sn_def by (simp add: last_map)
  have L_eq: "hs @ [getCurrentState sn] = L"
    unfolding hs_def using lastL[symmetric] by (simp add: L_def)
  from committedRun_past[OF run] Cons
  have p: "past sn = past s0 @ hs" and f: "future sn = []"
    by (simp_all add: sn_def hs_def L_def)
  define su where "su = (handleUndo ^^ length hs) sn"
  from undo_iter[OF p]
  have u1: "past su = past s0" and u2: "getCurrentState su = hd L"
    and u3: "future su = rev (tl L)"
    by (simp_all add: su_def L_eq f)
  have hdL: "hd L = getCurrentState s0" by (simp add: L_def)
  have tlne: "tl L \<noteq> []" using Cons by (simp add: L_def)
  have u3': "future su = [] @ rev (tl L)" using u3 by simp
  have lr: "length (rev (tl L)) = length ts" by (simp add: L_def)
  from redo_iter[OF u3'] tlne
  have "getCurrentState ((handleRedo ^^ length ts) su) = last (tl L)"
    unfolding lr by (simp add: hd_rev)
  also have "\<dots> = last L" using tlne by (cases L) simp_all
  finally have r: "getCurrentState ((handleRedo ^^ length ts) su) = getCurrentState sn"
    using lastL by simp
  show ?thesis
    using u1 u2 hdL r unfolding su_def len sn_def
    by (simp add: handleUndo_def handleRedo_def)
qed

text \<open>
  C1. For every state \<open>s0\<close> and every run of \<open>n\<close> committed mutations from it, \<open>n\<close> undos
  restore the elements, the pages and the ink map of \<open>s0\<close> (and its \<open>past\<close> stack), and \<open>n\<close>
  redos after that restore the elements, the pages and the ink map left by the last
  mutation. Undo leaves a state with empty \<open>past\<close> unchanged, redo a state with empty
  \<open>future\<close>.
\<close>

theorem undo_redo_inverse:
  assumes run: "committedRun s0 ts"
  shows "elements ((handleUndo ^^ length ts) (last (s0 # ts))) = elements s0 \<and>
         pages ((handleUndo ^^ length ts) (last (s0 # ts))) = pages s0 \<and>
         markupData ((handleUndo ^^ length ts) (last (s0 # ts))) = markupData s0 \<and>
         past ((handleUndo ^^ length ts) (last (s0 # ts))) = past s0 \<and>
         elements ((handleRedo ^^ length ts) ((handleUndo ^^ length ts) (last (s0 # ts))))
           = elements (last (s0 # ts)) \<and>
         pages ((handleRedo ^^ length ts) ((handleUndo ^^ length ts) (last (s0 # ts))))
           = pages (last (s0 # ts)) \<and>
         markupData ((handleRedo ^^ length ts) ((handleUndo ^^ length ts) (last (s0 # ts))))
           = markupData (last (s0 # ts)) \<and>
         (past s = [] \<longrightarrow> handleUndo s = s) \<and>
         (future s = [] \<longrightarrow> handleRedo s = s)"
  using undo_redo_snapshots[OF run, of s]
  by (simp only: getCurrentState_eq_iff) blast

theorem undo_redo_inverse_witness:
  "committedRun (initialState ''p1'')
     [handleAddPage ''p2'' (initialState ''p1''),
      handleAddElement RECTANGLE ''e1'' (handleAddPage ''p2'' (initialState ''p1''))] \<and>
   elements ((handleUndo ^^ 2)
     (handleAddElement RECTANGLE ''e1'' (handleAddPage ''p2'' (initialState ''p1'')))) = [] \<and>
   pages ((handleUndo ^^ 2)
     (handleAddElement RECTANGLE ''e1'' (handleAddPage ''p2'' (initialState ''p1''))))
     = [\<lparr>page_id = ''p1''\<rparr>] \<and>
   markupData ((handleUndo ^^ 2)
     (handleAddElement RECTANGLE ''e1'' (handleAddPage ''p2'' (initialState ''p1''))))
     = Map.empty \<and>
   length (elements ((handleRedo ^^ 2) ((handleUndo ^^ 2)
     (handleAddElement RECTANGLE ''e1'' (handleAddPage ''p2'' (initialState ''p1'')))))) = 1 \<and>
   pages ((handleRedo ^^ 2) ((handleUndo ^^ 2)
     (handleAddElement RECTANGLE ''e1'' (handleAddPage ''p2'' (initialState ''p1'')))))
     = [\<lparr>page_id = ''p1''\<rparr>, \<lparr>page_id = ''p2''\<rparr>] \<and>
   past (initialState ''p1'') = [] \<and>
   handleUndo (initialState ''p1'') = initialState ''p1'' \<and>
   future (initialState ''p1'') = [] \<and>
   handleRedo (initialState ''p1'') = initialState ''p1''"
proof -
  have m: "\<not> isMarkupMode (handleAddPage ''p2'' (initialState ''p1''))"
    by (simp add: handleAddPage_def saveHistory_def initialState_def)
  have run: "committedRun (initialState ''p1'')
     [handleAddPage ''p2'' (initialState ''p1''),
      handleAddElement RECTANGLE ''e1'' (handleAddPage ''p2'' (initialState ''p1''))]"
    using m by (simp add: handleAddPage_committed handleAddElement_committed)
  have e: "past (initialState ''p1'') = []" "future (initialState ''p1'') = []"
    "elements (initialState ''p1'') = []"
    "pages (initialState ''p1'') = [\<lparr>page_id = ''p1''\<rparr>]"
    "markupData (initialState ''p1'') = Map.empty"
    by (simp_all add: initialState_def)
  have f: "length (elements
      (handleAddElement RECTANGLE ''e1'' (handleAddPage ''p2'' (initialState ''p1'')))) = 1"
    "pages (handleAddElement RECTANGLE ''e1'' (handleAddPage ''p2'' (initialState ''p1'')))
       = [\<lparr>page_id = ''p1''\<rparr>, \<lparr>page_id = ''p2''\<rparr>]"
    by (simp_all add: handleAddElement_def handleAddPage_def saveHistory_def initialState_def
        Let_def)
  from undo_redo_inverse[OF run, of "initialState ''p1''"] run e f show ?thesis
    by (simp add: numeral_2_eq_2)
qed

text \<open>
  C9. Undo and redo leave the viewport scale, the snap flag, the active page id and the
  file name as they were, in every state; nothing ties the active page id to the restored
  page list.
\<close>

theorem undo_redo_frame:
  "scale (handleUndo s) = scale s \<and> snapToGrid (handleUndo s) = snapToGrid s \<and>
   activePageId (handleUndo s) = activePageId s \<and> fileName (handleUndo s) = fileName s \<and>
   scale (handleRedo s) = scale s \<and> snapToGrid (handleRedo s) = snapToGrid s \<and>
   activePageId (handleRedo s) = activePageId s \<and> fileName (handleRedo s) = fileName s"
  by (simp add: handleUndo_def handleRedo_def restoreState_def Let_def)

text \<open>
  An instance: undoing the addition of a second page restores the one-page list and leaves
  the id of the page that is gone as the active page id.
\<close>

lemma undo_add_page_active:
  "pages (handleUndo (handleAddPage ''p2'' (initialState ''p1''))) = [\<lparr>page_id = ''p1''\<rparr>] \<and>
   activePageId (handleUndo (handleAddPage ''p2'' (initialState ''p1''))) = ''p2''"
  by (simp add: handleUndo_def handleAddPage_def saveHistory_def restoreState_def
      getCurrentState_def initialState_def truthy_def Let_def)

lemma truthy_not_noSelection: "truthy (sel_id sel) \<Longrightarrow> sel \<noteq> noSelection"
  by (auto simp: truthy_def noSelection_def)

text \<open>
  C10. Redo returns the selection it was given, in every state. Undo does not: when an
  element is selected and the snapshot undo restores has no element of that id, undo
  clears the selection.
\<close>

theorem redo_keeps_selection:
  "selection (handleRedo s) = selection s \<and>
   (past s \<noteq> [] \<and> truthy (sel_id (selection s)) \<and>
    (\<forall>e \<in> set (h_elements (last (past s))). Some (el_id e) \<noteq> sel_id (selection s))
    \<longrightarrow> selection (handleUndo s) = noSelection \<and> selection (handleUndo s) \<noteq> selection s)"
proof (intro conjI impI)
  show "selection (handleRedo s) = selection s"
    by (simp add: handleRedo_def restoreState_def Let_def)
next
  assume a: "past s \<noteq> [] \<and> truthy (sel_id (selection s)) \<and>
    (\<forall>e \<in> set (h_elements (last (past s))). Some (el_id e) \<noteq> sel_id (selection s))"
  then have f: "find (\<lambda>e. Some (el_id e) = sel_id (selection s)) (h_elements (last (past s))) = None"
    by (simp add: find_None_iff)
  from a f show u: "selection (handleUndo s) = noSelection"
    by (simp add: handleUndo_def restoreState_def Let_def)
  from a have "selection s \<noteq> noSelection"
    by (simp add: truthy_not_noSelection)
  with u show "selection (handleUndo s) \<noteq> selection s"
    by simp
qed

theorem redo_keeps_selection_witness:
  "past (handleAddElement RECTANGLE ''e1'' (initialState ''p1'')) \<noteq> [] \<and>
   truthy (sel_id (selection (handleAddElement RECTANGLE ''e1'' (initialState ''p1'')))) \<and>
   h_elements (last (past (handleAddElement RECTANGLE ''e1'' (initialState ''p1'')))) = [] \<and>
   selection (handleRedo (handleAddElement RECTANGLE ''e1'' (initialState ''p1'')))
     = selection (handleAddElement RECTANGLE ''e1'' (initialState ''p1'')) \<and>
   selection (handleUndo (handleAddElement RECTANGLE ''e1'' (initialState ''p1''))) = noSelection \<and>
   selection (handleUndo (handleAddElement RECTANGLE ''e1'' (initialState ''p1'')))
     \<noteq> selection (handleAddElement RECTANGLE ''e1'' (initialState ''p1''))"
proof -
  have h: "past (handleAddElement RECTANGLE ''e1'' (initialState ''p1'')) \<noteq> [] \<and>
     truthy (sel_id (selection (handleAddElement RECTANGLE ''e1'' (initialState ''p1'')))) \<and>
     (\<forall>e \<in> set (h_elements (last (past (handleAddElement RECTANGLE ''e1'' (initialState ''p1''))))).
        Some (el_id e) \<noteq> sel_id (selection (handleAddElement RECTANGLE ''e1'' (initialState ''p1''))))"
    by (simp add: handleAddElement_def saveHistory_def initialState_def getCurrentState_def
        truthy_def Let_def)
  have n: "h_elements (last (past (handleAddElement RECTANGLE ''e1'' (initialState ''p1'')))) = []"
    by (simp add: handleAddElement_def saveHistory_def initialState_def getCurrentState_def
        Let_def)
  from redo_keeps_selection[of "handleAddElement RECTANGLE ''e1'' (initialState ''p1'')"] h n
  show ?thesis by blast
qed

section \<open>Project load\<close>

text \<open>
  C8. When the text of the file does not parse, parses to \<^verbatim>\<open>null\<close>, or parses to an object
  without \<open>pages\<close> or without \<open>elements\<close>, the load shows the failure alert and returns the
  state it was given, every field of it.
\<close>

theorem load_malformed_untouched:
  "file_parse file = ParseThrows \<or> file_parse file = ParsedNull \<or>
   (\<exists>project. file_parse file = ParsedProject project \<and>
      (pf_pages project = None \<or> pf_elements project = None))
   \<Longrightarrow> handleLoadProject file s = (Some loadFailedAlert, s)"
  by (auto simp add: handleLoadProject_def split: option.splits)

theorem load_malformed_untouched_witness:
  "handleLoadProject \<lparr>file_name = ''notes.engpaper'', file_parse = ParseThrows\<rparr>
     (handleAddPage ''p2'' (initialState ''p1''))
     = (Some loadFailedAlert, handleAddPage ''p2'' (initialState ''p1'')) \<and>
   handleLoadProject
     \<lparr>file_name = ''notes.engpaper'',
      file_parse = ParsedProject \<lparr>pf_fileName = Some ''notes'', pf_pages = None,
        pf_elements = Some [], pf_markupData = None, pf_snapToGrid = Some True\<rparr>\<rparr>
     (handleAddPage ''p2'' (initialState ''p1''))
     = (Some loadFailedAlert, handleAddPage ''p2'' (initialState ''p1''))"
  using load_malformed_untouched[of "\<lparr>file_name = ''notes.engpaper'', file_parse = ParseThrows\<rparr>"
      "handleAddPage ''p2'' (initialState ''p1'')"]
    load_malformed_untouched[of "\<lparr>file_name = ''notes.engpaper'',
      file_parse = ParsedProject \<lparr>pf_fileName = Some ''notes'', pf_pages = None,
        pf_elements = Some [], pf_markupData = None, pf_snapToGrid = Some True\<rparr>\<rparr>"
      "handleAddPage ''p2'' (initialState ''p1'')"]
  by simp

section \<open>Pages\<close>

text \<open>Adding and removing pages keep the page list non-empty.\<close>

lemma handleAddPage_pages: "pages (handleAddPage i s) \<noteq> []"
  by (simp add: handleAddPage_def saveHistory_def)

lemma confirmRemovePage_pages:
  "pages s \<noteq> [] \<Longrightarrow> confirmRemovePage s = Inr t \<Longrightarrow> pages t \<noteq> []"
  by (auto simp add: confirmRemovePage_def Let_def saveHistory_def split: if_splits)

lemma confirmRemovePage_throws_pages:
  "confirmRemovePage s = Inl (TypeError t) \<Longrightarrow> pages t = pages s"
  by (auto simp add: confirmRemovePage_def Let_def saveHistory_def split: if_splits)

lemma handleLoadProject_pages:
  "pages s \<noteq> [] \<Longrightarrow> file_parse file = ParsedProject project \<Longrightarrow> pf_pages project \<noteq> Some []
   \<Longrightarrow> pages (snd (handleLoadProject file s)) \<noteq> []"
  by (auto simp add: handleLoadProject_def Let_def saveHistory_def
      split: option.splits if_splits list.splits)

text \<open>
  C2. The validation \<^verbatim>\<open>!project.pages\<close> accepts an empty array. A project file whose page
  list is empty and whose element list is present loads without an alert and leaves the
  document with no page, from every state.
\<close>

theorem load_empty_page_list:
  "fst (handleLoadProject
     \<lparr>file_name = n,
      file_parse = ParsedProject \<lparr>pf_fileName = fnm, pf_pages = Some [],
        pf_elements = Some es, pf_markupData = md, pf_snapToGrid = sg\<rparr>\<rparr> s) = None \<and>
   pages (snd (handleLoadProject
     \<lparr>file_name = n,
      file_parse = ParsedProject \<lparr>pf_fileName = fnm, pf_pages = Some [],
        pf_elements = Some es, pf_markupData = md, pf_snapToGrid = sg\<rparr>\<rparr> s)) = []"
  by (simp add: handleLoadProject_def Let_def split: option.splits)

lemma findIndex_ge: "- 1 \<le> findIndex P xs"
  by (induction xs) (auto simp: Let_def)








section \<open>Direct manipulation: drag\<close>

lemma rectangleDocument_fields:
  "elements rectangleDocument = [exampleRectangle]"
  "pages rectangleDocument = [\<lparr>page_id = ''p1''\<rparr>]"
  "markupData rectangleDocument = Map.empty"
  "selection rectangleDocument = \<lparr>sel_id = Some ''e1'', isEditingText = False\<rparr>"
  "scale rectangleDocument = 1"
  "\<not> snapToGrid rectangleDocument"
  "\<not> isMarkupMode rectangleDocument"
  "dragState rectangleDocument = None"
  "lastClickRef rectangleDocument = None"
  "activePageId rectangleDocument = ''p1''"
  by (simp_all add: exampleRectangle_def rectangleDocument_def handleAddElement_def
      saveHistory_def initialState_def Let_def)

lemma exampleRectangle_fields:
  "el_id exampleRectangle = ''e1''"
  "el_pageId exampleRectangle = ''p1''"
  "el_type exampleRectangle = RECTANGLE"
  "el_x exampleRectangle = 100"
  "el_y exampleRectangle = 100"
  "el_width exampleRectangle = 160"
  "el_height exampleRectangle = 100"
  "el_rotation exampleRectangle = Some 0"
  by (simp_all add: exampleRectangle_def rectangleDocument_def handleAddElement_def
      saveHistory_def initialState_def Let_def)

lemma exampleDom_fields:
  "pageRefs exampleDom ''p1'' = Some (0, 0)"
  "markupCanvasRefs exampleDom ''p1'' =
     Some \<lparr>cv_left = 0, cv_top = 0, cv_hasContext = True, cv_dataURL = ''data:ink''\<rparr>"
  by (simp_all add: exampleDom_def)

lemma pointerDownElement_drag:
  assumes "\<not> isMarkupMode s"
    and "\<not> (isEditingText (selection s) \<and> sel_id (selection s) = Some (el_id r))"
    and "\<not> (isDoubleClick s now r \<and> el_type r = TEXT)"
  shows "handlePointerDownElement dm e now r s =
     s\<lparr>activePageId := el_pageId r,
       lastClickRef := Some (el_id r, now),
       selection := \<lparr>sel_id = Some (el_id r), isEditingText = False\<rparr>,
       historySnapshot := Some (getCurrentState s),
       dragInteractedRef := False,
       dragState := Some \<lparr>isDragging = True, isResizing = False, isRotating = False,
         resizeHandle = None,
         startX = fst (getPointerCoords dm s (clientX e) (clientY e) (el_pageId r)),
         startY = snd (getPointerCoords dm s (clientX e) (clientY e) (el_pageId r)),
         initialElement = Some r\<rparr>\<rparr>"
proof -
  have a: "\<not> isEditingText (selection s) \<or> sel_id (selection s) \<noteq> Some (el_id r)"
    using assms(2) by blast
  have b: "\<not> isDoubleClick s now r \<or> el_type r \<noteq> TEXT"
    using assms(3) by blast
  show ?thesis
    unfolding handlePointerDownElement_def Let_def
    using assms(1) a b by auto
qed

lemma pointerMove_drag:
  assumes "dragState s = Some ds" and "isDragging ds" and "initialElement ds = Some r"
    and "sel_id (selection s) = Some i" and "i \<noteq> []"
  shows "handlePointerMove dm e s =
     s\<lparr>dragInteractedRef := True,
       elements := map (\<lambda>el. if el_id el = i
           then el\<lparr>el_x := snap (snapToGrid s) (el_x r +
                       (fst (getPointerCoords dm s (clientX e) (clientY e) (el_pageId r))
                        - startX ds)),
                    el_y := snap (snapToGrid s) (el_y r +
                       (snd (getPointerCoords dm s (clientX e) (clientY e) (el_pageId r))
                        - startY ds))\<rparr>
           else el) (elements s)\<rparr>"
  using assms by (simp add: handlePointerMove_def Let_def handleUpdateElement_def)

lemma drag_gesture:
  fixes s :: AppState and r :: CanvasElement and dm :: Dom and ea eb :: PointerEvent
    and now :: real
  assumes nm: "\<not> isMarkupMode s"
    and ne: "\<not> (isEditingText (selection s) \<and> sel_id (selection s) = Some (el_id r))"
    and nt: "el_type r \<noteq> TEXT"
    and pr: "pageRefs dm (el_pageId r) = Some (l, t)"
    and id: "el_id r \<noteq> []"
  defines "s' \<equiv> dragGesture dm ea eb now r s"
  shows "elements s' = map (\<lambda>el. if el_id el = el_id r
           then el\<lparr>el_x := snap (snapToGrid s) (el_x r +
                       ((clientX eb - l) / scale s - (clientX ea - l) / scale s)),
                    el_y := snap (snapToGrid s) (el_y r +
                       ((clientY eb - t) / scale s - (clientY ea - t) / scale s))\<rparr>
           else el) (elements s)"
    and "snapToGrid s' = snapToGrid s"
    and "isMarkupMode s' = isMarkupMode s"
    and "scale s' = scale s"
    and "selection s' = \<lparr>sel_id = Some (el_id r), isEditingText = False\<rparr>"
    and "past s' = past s @ [getCurrentState s]"
    and "future s' = []"
    and "markupData s' = markupData s"
    and "pages s' = pages s"
proof -
  define d where "d = handlePointerDownElement dm ea now r s"
  define ds where "ds = \<lparr>isDragging = True, isResizing = False, isRotating = False,
         resizeHandle = None,
         startX = fst (getPointerCoords dm s (clientX ea) (clientY ea) (el_pageId r)),
         startY = snd (getPointerCoords dm s (clientX ea) (clientY ea) (el_pageId r)),
         initialElement = Some r\<rparr>"
  have nd: "\<not> (isDoubleClick s now r \<and> el_type r = TEXT)" using nt by simp
  note dn = pointerDownElement_drag[OF nm ne nd, of dm ea, folded d_def ds_def]
  have d1: "dragState d = Some ds" "sel_id (selection d) = Some (el_id r)"
    "elements d = elements s" "snapToGrid d = snapToGrid s" "scale d = scale s"
    "isMarkupMode d = isMarkupMode s" "past d = past s" "future d = future s"
    "historySnapshot d = Some (getCurrentState s)"
    "selection d = \<lparr>sel_id = Some (el_id r), isEditingText = False\<rparr>"
    "markupData d = markupData s" "pages d = pages s"
    by (simp_all add: dn)
  have ds1: "isDragging ds" "initialElement ds = Some r"
    "startX ds = (clientX ea - l) / scale s" "startY ds = (clientY ea - t) / scale s"
    by (simp_all add: ds_def getPointerCoords_def pr)
  define m where "m = handlePointerMove dm eb d"
  note mv = pointerMove_drag[OF d1(1) ds1(1) ds1(2) d1(2) id, of dm eb, folded m_def]
  have m1: "dragState m = Some ds" "historySnapshot m = Some (getCurrentState s)"
    "dragInteractedRef m" "past m = past s" "snapToGrid m = snapToGrid s"
    "scale m = scale s" "isMarkupMode m = isMarkupMode s"
    "selection m = \<lparr>sel_id = Some (el_id r), isEditingText = False\<rparr>"
    "markupData m = markupData s" "pages m = pages s"
    by (simp_all add: mv d1)
  have m2: "elements m = map (\<lambda>el. if el_id el = el_id r
           then el\<lparr>el_x := snap (snapToGrid s) (el_x r +
                       ((clientX eb - l) / scale s - (clientX ea - l) / scale s)),
                    el_y := snap (snapToGrid s) (el_y r +
                       ((clientY eb - t) / scale s - (clientY ea - t) / scale s))\<rparr>
           else el) (elements s)"
    by (simp add: mv d1 ds1 getPointerCoords_def pr)
  have s': "s' = handlePointerUp m" by (simp add: s'_def dragGesture_def m_def d_def)
  have up: "handlePointerUp m = m\<lparr>past := past m @ [getCurrentState s], future := [],
      dragState := None\<rparr>"
    by (simp add: handlePointerUp_def m1)
  show "elements s' = map (\<lambda>el. if el_id el = el_id r
           then el\<lparr>el_x := snap (snapToGrid s) (el_x r +
                       ((clientX eb - l) / scale s - (clientX ea - l) / scale s)),
                    el_y := snap (snapToGrid s) (el_y r +
                       ((clientY eb - t) / scale s - (clientY ea - t) / scale s))\<rparr>
           else el) (elements s)"
    by (simp add: s' up m2)
  show "snapToGrid s' = snapToGrid s" "isMarkupMode s' = isMarkupMode s" "scale s' = scale s"
    "selection s' = \<lparr>sel_id = Some (el_id r), isEditingText = False\<rparr>"
    "past s' = past s @ [getCurrentState s]" "future s' = []"
    "markupData s' = markupData s" "pages s' = pages s"
    by (simp_all add: s' up m1)
qed



text \<open>
  C7. From any state outside ink mode, at scale 1, with snapping off and the active page
  mounted: a newly added Rectangle has geometry (100, 100, 160, 100) and rotation 0; a drag
  by (50, 0) takes it to (150, 100, 160, 100); after snapping is switched on, a drag by
  (53, 0) puts x at 200, the multiple of 20 nearest to 203. Width, height and rotation
  stay as they were.
\<close>

theorem drag_scenario:
  fixes s :: AppState and dm :: Dom and px py qx qy now1 now2 l t :: real and i :: string
  assumes nm: "\<not> isMarkupMode s" and sc: "scale s = 1" and ns: "\<not> snapToGrid s"
    and pr: "pageRefs dm (activePageId s) = Some (l, t)" and id: "i \<noteq> []"
  defines "s1 \<equiv> handleAddElement RECTANGLE i s"
  defines "s2 \<equiv> dragGesture dm \<lparr>clientX = px, clientY = py\<rparr>
                   \<lparr>clientX = px + 50, clientY = py\<rparr> now1 (last (elements s1)) s1"
  defines "s3 \<equiv> toggleSnap s2"
  defines "s4 \<equiv> dragGesture dm \<lparr>clientX = qx, clientY = qy\<rparr>
                   \<lparr>clientX = qx + 53, clientY = qy\<rparr> now2 (last (elements s2)) s3"
  shows "geometry (last (elements s1)) = (100, 100, 160, 100, Some 0) \<and>
         geometry (last (elements s2)) = (150, 100, 160, 100, Some 0) \<and>
         snapToGrid s3 \<and>
         geometry (last (elements s4)) = (200, 100, 160, 100, Some 0)"
proof -
  define r1 where "r1 = last (elements s1)"
  have e1: "elements s1 = elements s @ [r1]"
    using nm by (simp add: r1_def s1_def handleAddElement_def saveHistory_def Let_def)
  have r1: "el_id r1 = i" "el_type r1 = RECTANGLE" "el_pageId r1 = activePageId s"
    "el_x r1 = 100" "el_y r1 = 100" "el_width r1 = 160" "el_height r1 = 100"
    "el_rotation r1 = Some 0"
    using nm by (simp_all add: r1_def s1_def handleAddElement_def saveHistory_def Let_def)
  have f1: "\<not> isMarkupMode s1" "scale s1 = 1" "\<not> snapToGrid s1"
    "\<not> isEditingText (selection s1)"
    using nm sc ns by (simp_all add: s1_def handleAddElement_def saveHistory_def Let_def)
  have g1: "geometry r1 = (100, 100, 160, 100, Some 0)"
    by (simp add: geometry_def r1)
  have s2': "s2 = dragGesture dm \<lparr>clientX = px, clientY = py\<rparr>
                   \<lparr>clientX = px + 50, clientY = py\<rparr> now1 r1 s1"
    by (simp add: s2_def r1_def)
  have a1: "\<not> (isEditingText (selection s1) \<and> sel_id (selection s1) = Some (el_id r1))"
    using f1 by simp
  have t1: "el_type r1 \<noteq> TEXT" by (simp add: r1)
  have p1: "pageRefs dm (el_pageId r1) = Some (l, t)" by (simp add: r1 pr)
  have i1: "el_id r1 \<noteq> []" by (simp add: r1 id)
  note dg1 = drag_gesture[OF f1(1) a1 t1 p1 i1, where ea = "\<lparr>clientX = px, clientY = py\<rparr>"
      and eb = "\<lparr>clientX = px + 50, clientY = py\<rparr>" and now = now1, folded s2']
  define r2 where "r2 = last (elements s2)"
  have r2e: "r2 = r1\<lparr>el_x := 150, el_y := 100\<rparr>"
    unfolding r2_def dg1(1) by (simp add: e1 f1 snap_def r1)
  have e2: "\<exists>es. elements s2 = es @ [r2]"
    unfolding dg1(1) e1 r2_def by simp
  have g2: "geometry r2 = (150, 100, 160, 100, Some 0)"
    by (simp add: geometry_def r2e r1)
  have f3: "\<not> isMarkupMode s3" "scale s3 = 1" "snapToGrid s3"
    "\<not> isEditingText (selection s3)" "elements s3 = elements s2"
    using dg1 f1 by (simp_all add: s3_def toggleSnap_def)
  have s4': "s4 = dragGesture dm \<lparr>clientX = qx, clientY = qy\<rparr>
                   \<lparr>clientX = qx + 53, clientY = qy\<rparr> now2 r2 s3"
    by (simp add: s4_def r2_def)
  have a3: "\<not> (isEditingText (selection s3) \<and> sel_id (selection s3) = Some (el_id r2))"
    using f3 by simp
  have t3: "el_type r2 \<noteq> TEXT" by (simp add: r2e r1)
  have p3: "pageRefs dm (el_pageId r2) = Some (l, t)" by (simp add: r2e r1 pr)
  have i3: "el_id r2 \<noteq> []" by (simp add: r2e r1 id)
  note dg3 = drag_gesture[OF f3(1) a3 t3 p3 i3, where ea = "\<lparr>clientX = qx, clientY = qy\<rparr>"
      and eb = "\<lparr>clientX = qx + 53, clientY = qy\<rparr>" and now = now2, folded s4']
  from e2 obtain es where es: "elements s2 = es @ [r2]" by blast
  have rx: "Math_round (203 / 20) * 20 = 200" "Math_round 5 * 20 = 100"
    by (simp_all add: Math_round_def)
  have "last (elements s4) = r2\<lparr>el_x := 200, el_y := 100\<rparr>"
    unfolding dg3(1) f3(5) es
    by (simp add: f3 snap_def GRID_SIZE_def r2e r1 rx)
  then have g4: "geometry (last (elements s4)) = (200, 100, 160, 100, Some 0)"
    by (simp add: geometry_def r2e r1)
  show ?thesis
    using g1 g2 g4 f3(3) by (simp add: r1_def r2_def)
qed

theorem drag_scenario_witness:
  "\<not> isMarkupMode (initialState ''p1'') \<and>
   scale (initialState ''p1'') = 1 \<and>
   \<not> snapToGrid (initialState ''p1'') \<and>
   pageRefs exampleDom (activePageId (initialState ''p1'')) = Some (0, 0) \<and>
   geometry exampleRectangle = (100, 100, 160, 100, Some 0) \<and>
   geometry (last (elements
      (dragGesture exampleDom \<lparr>clientX = 110, clientY = 110\<rparr> \<lparr>clientX = 160, clientY = 110\<rparr> 0
         exampleRectangle rectangleDocument)))
     = (150, 100, 160, 100, Some 0) \<and>
   geometry (last (elements
      (dragGesture exampleDom \<lparr>clientX = 160, clientY = 110\<rparr> \<lparr>clientX = 213, clientY = 110\<rparr> 1000
         (last (elements
            (dragGesture exampleDom \<lparr>clientX = 110, clientY = 110\<rparr>
               \<lparr>clientX = 160, clientY = 110\<rparr> 0 exampleRectangle rectangleDocument)))
         (toggleSnap
            (dragGesture exampleDom \<lparr>clientX = 110, clientY = 110\<rparr>
               \<lparr>clientX = 160, clientY = 110\<rparr> 0 exampleRectangle rectangleDocument)))))
     = (200, 100, 160, 100, Some 0)"
proof -
  have h: "\<not> isMarkupMode (initialState ''p1'')" "scale (initialState ''p1'') = 1"
    "\<not> snapToGrid (initialState ''p1'')"
    "pageRefs exampleDom (activePageId (initialState ''p1'')) = Some (0, 0)"
    "''e1'' \<noteq> []"
    by (simp_all add: initialState_def exampleDom_def)
  have n: "(110::real) + 50 = 160" "(160::real) + 53 = 213" by simp_all
  from drag_scenario[OF h, of 110 110 0 160 110 1000] h show ?thesis
    unfolding n exampleRectangle_def rectangleDocument_def by blast
qed

section \<open>Direct manipulation: resize\<close>

lemma rotatePoint_inverse:
  "rotatePoint (fst (rotatePoint a b t)) (snd (rotatePoint a b t)) (- t) = (a, b)"
proof -
  define c where "c = cos (pi / 180 * t)"
  define sn where "sn = sin (pi / 180 * t)"
  have u: "c * c + sn * sn = 1"
    unfolding c_def sn_def using sin_cos_squared_add2[of "pi / 180 * t"]
    by (simp add: power2_eq_square)
  have fwd: "rotatePoint p q t = (p * c - q * sn, p * sn + q * c)" for p q
    unfolding rotatePoint_def Let_def c_def sn_def by (rule refl)
  have "pi / 180 * - t = - (pi / 180 * t)" by simp
  then have bwd: "rotatePoint p q (- t) = (p * c + q * sn, q * c - p * sn)" for p q
    unfolding rotatePoint_def Let_def c_def sn_def by simp
  have 1: "(a * c - b * sn) * c + (a * sn + b * c) * sn = a * (c * c + sn * sn)"
    by (simp add: algebra_simps)
  have 2: "(a * sn + b * c) * c - (a * c - b * sn) * sn = b * (c * c + sn * sn)"
    by (simp add: algebra_simps)
  show ?thesis
    unfolding fwd bwd fst_conv snd_conv 1 2 u by simp
qed

lemma rotatePoint_neg:
  "rotatePoint (- a) (- b) t = (- fst (rotatePoint a b t), - snd (rotatePoint a b t))"
  by (simp add: rotatePoint_def Let_def algebra_simps)

lemma Math_round_ge_1: "1 \<le> v \<Longrightarrow> 1 \<le> Math_round v"
proof -
  assume "1 \<le> v"
  then have "of_int 1 \<le> v + 1 / 2" by simp
  then have "1 \<le> \<lfloor>v + 1 / 2\<rfloor>" by (simp only: le_floor_iff)
  then show ?thesis by (simp add: Math_round_def)
qed

lemma resizeBranch_size:
  assumes "resizeBranch snapOn handle initial deltaX deltaY = (nx, ny, nw, nh)"
  shows "MIN_SIZE snapOn \<le> nw" and "MIN_SIZE snapOn \<le> nh"
    and "snapOn \<Longrightarrow> \<exists>m::int. nw = of_int m * GRID_SIZE"
    and "snapOn \<Longrightarrow> \<exists>n::int. nh = of_int n * GRID_SIZE"
proof -
  define rot where "rot = (case el_rotation initial of None \<Rightarrow> 0 | Some r \<Rightarrow> r)"
  define dW0 where "dW0 = fst (resizeDeltas handle (rotatePoint deltaX deltaY (- rot)))"
  define dH0 where "dH0 = snd (resizeDeltas handle (rotatePoint deltaX deltaY (- rot)))"
  define fW where "fW = el_width initial + (if el_width initial + dW0 < MIN_SIZE snapOn
                 then MIN_SIZE snapOn - el_width initial else dW0)"
  define fH where "fH = el_height initial + (if el_height initial + dH0 < MIN_SIZE snapOn
                 then MIN_SIZE snapOn - el_height initial else dH0)"
  have "nw = fst (snd (snd (resizeBranch snapOn handle initial deltaX deltaY)))"
    using assms by simp
  then have w: "nw = (if snapOn then Math_round (fW / GRID_SIZE) * GRID_SIZE else fW)"
    by (simp add: resizeBranch_def Let_def rot_def dW0_def fW_def)
  have "nh = snd (snd (snd (resizeBranch snapOn handle initial deltaX deltaY)))"
    using assms by simp
  then have h: "nh = (if snapOn then Math_round (fH / GRID_SIZE) * GRID_SIZE else fH)"
    by (simp add: resizeBranch_def Let_def rot_def dH0_def fH_def)
  have fWm: "MIN_SIZE snapOn \<le> fW" unfolding fW_def by simp
  have fHm: "MIN_SIZE snapOn \<le> fH" unfolding fH_def by simp
  show "MIN_SIZE snapOn \<le> nw"
  proof (cases snapOn)
    case True
    with fWm have "1 \<le> fW / GRID_SIZE" by (simp add: MIN_SIZE_def GRID_SIZE_def)
    from Math_round_ge_1[OF this] True show ?thesis
      by (simp add: w MIN_SIZE_def GRID_SIZE_def)
  next
    case False
    with fWm show ?thesis by (simp add: w)
  qed
  show "MIN_SIZE snapOn \<le> nh"
  proof (cases snapOn)
    case True
    with fHm have "1 \<le> fH / GRID_SIZE" by (simp add: MIN_SIZE_def GRID_SIZE_def)
    from Math_round_ge_1[OF this] True show ?thesis
      by (simp add: h MIN_SIZE_def GRID_SIZE_def)
  next
    case False
    with fHm show ?thesis by (simp add: h)
  qed
  show "\<exists>m::int. nw = of_int m * GRID_SIZE" if snapOn
    using that w unfolding Math_round_def by auto
  show "\<exists>n::int. nh = of_int n * GRID_SIZE" if snapOn
    using that h unfolding Math_round_def by auto
qed


lemma pointerMove_resize:
  assumes "dragState s = Some ds" and "\<not> isDragging ds" and "\<not> isRotating ds"
    and "isResizing ds" and "initialElement ds = Some r"
    and "sel_id (selection s) = Some i" and "i \<noteq> []"
    and "resizeBranch (snapToGrid s) (resizeHandle ds) r
           (fst (getPointerCoords dm s (clientX e) (clientY e) (el_pageId r)) - startX ds)
           (snd (getPointerCoords dm s (clientX e) (clientY e) (el_pageId r)) - startY ds)
         = (nx, ny, nw, nh)"
  shows "handlePointerMove dm e s =
     s\<lparr>dragInteractedRef := True,
       elements := map (\<lambda>el. if el_id el = i
           then el\<lparr>el_x := nx, el_y := ny, el_width := nw, el_height := nh\<rparr>
           else el) (elements s)\<rparr>"
  using assms by (simp add: handlePointerMove_def Let_def handleUpdateElement_def)

lemma resizeBranch_floor:
  assumes "resizeBranch snapOn handle initial deltaX deltaY = (nx, ny, nw, nh)"
  shows "(if snapOn then GRID_SIZE else 20) \<le> nw \<and> (if snapOn then GRID_SIZE else 20) \<le> nh \<and>
         20 \<le> nw \<and> 20 \<le> nh"
  using resizeBranch_size(1,2)[OF assms]
  by (cases snapOn) (simp_all add: MIN_SIZE_def GRID_SIZE_def)

text \<open>
  C5. While a resize gesture is active, a pointer-move leaves every element of the selected
  id with width and height at least \<open>GRID_SIZE\<close> under snapping and at least 20 otherwise
  (so at least 20 either way, \<open>GRID_SIZE\<close> being 20), whatever the handle, the element at
  gesture start, its rotation and the pointer position. Under snapping both are integer
  multiples of \<open>GRID_SIZE\<close>: the rounding comes after the clamp.
\<close>

theorem resize_move_min_size:
  assumes ds: "dragState s = Some ds" and nd: "\<not> isDragging ds" and nr: "\<not> isRotating ds"
    and rs: "isResizing ds" and ie: "initialElement ds = Some initial"
    and sel: "sel_id (selection s) = Some i" and ne: "i \<noteq> []"
  shows "\<forall>el \<in> set (elements (handlePointerMove dm e s)). el_id el = i \<longrightarrow>
           (if snapToGrid s then GRID_SIZE else 20) \<le> el_width el \<and>
           (if snapToGrid s then GRID_SIZE else 20) \<le> el_height el \<and>
           20 \<le> el_width el \<and> 20 \<le> el_height el \<and>
           (snapToGrid s \<longrightarrow>
              (\<exists>m n :: int. el_width el = of_int m * GRID_SIZE \<and>
                              el_height el = of_int n * GRID_SIZE))"
proof -
  obtain nx ny nw nh where rb: "resizeBranch (snapToGrid s) (resizeHandle ds) initial
           (fst (getPointerCoords dm s (clientX e) (clientY e) (el_pageId initial)) - startX ds)
           (snd (getPointerCoords dm s (clientX e) (clientY e) (el_pageId initial)) - startY ds)
         = (nx, ny, nw, nh)"
    by (metis prod_cases4)
  note sz = resizeBranch_size(3,4)[OF rb] resizeBranch_floor[OF rb]
  note mv = pointerMove_resize[OF ds nd nr rs ie sel ne rb]
  show ?thesis
  proof (intro ballI impI)
    fix el
    assume m: "el \<in> set (elements (handlePointerMove dm e s))" and idl: "el_id el = i"
    from m obtain el0 where "el0 \<in> set (elements s)"
      and el: "el = (if el_id el0 = i
           then el0\<lparr>el_x := nx, el_y := ny, el_width := nw, el_height := nh\<rparr> else el0)"
      unfolding mv by auto
    with idl have w: "el_width el = nw" and h: "el_height el = nh"
      by (auto split: if_splits)
    show "(if snapToGrid s then GRID_SIZE else 20) \<le> el_width el \<and>
           (if snapToGrid s then GRID_SIZE else 20) \<le> el_height el \<and>
           20 \<le> el_width el \<and> 20 \<le> el_height el \<and>
           (snapToGrid s \<longrightarrow>
              (\<exists>m n :: int. el_width el = of_int m * GRID_SIZE \<and>
                              el_height el = of_int n * GRID_SIZE))"
      unfolding w h using sz by blast
  qed
qed

lemma resizeBranch_se_noclamp:
  assumes "el_rotation init = Some r"
    and "20 \<le> el_width init + a" and "20 \<le> el_height init + b"
  shows "resizeBranch False (Some ''se'') init (fst (rotatePoint a b r)) (snd (rotatePoint a b r))
     = (el_x init + el_width init / 2 + fst (rotatePoint (a / 2) (b / 2) r)
          - (el_width init + a) / 2,
        el_y init + el_height init / 2 + snd (rotatePoint (a / 2) (b / 2) r)
          - (el_height init + b) / 2,
        el_width init + a, el_height init + b)"
  using assms
  by (simp add: resizeBranch_def Let_def rotatePoint_inverse resizeDeltas_def
      resizeAnchor_def MIN_SIZE_def)

lemma resize_round_trip_any_rotation:
  assumes rot: "el_rotation init = Some r"
    and w: "20 \<le> el_width init" and h: "20 \<le> el_height init"
    and wa: "20 \<le> el_width init + a" and hb: "20 \<le> el_height init + b"
  shows "(case resizeBranch False (Some ''se'') init
                 (fst (rotatePoint a b r)) (snd (rotatePoint a b r)) of
            (x1, y1, w1, h1) \<Rightarrow>
              resizeBranch False (Some ''se'')
                (init\<lparr>el_x := x1, el_y := y1, el_width := w1, el_height := h1\<rparr>)
                (fst (rotatePoint (- a) (- b) r)) (snd (rotatePoint (- a) (- b) r)))
         = (el_x init, el_y init, el_width init, el_height init)"
proof -
  define x1 where "x1 = el_x init + el_width init / 2 + fst (rotatePoint (a / 2) (b / 2) r)
          - (el_width init + a) / 2"
  define y1 where "y1 = el_y init + el_height init / 2 + snd (rotatePoint (a / 2) (b / 2) r)
          - (el_height init + b) / 2"
  define init1 where "init1 = init\<lparr>el_x := x1, el_y := y1, el_width := el_width init + a,
      el_height := el_height init + b\<rparr>"
  have first: "resizeBranch False (Some ''se'') init
                 (fst (rotatePoint a b r)) (snd (rotatePoint a b r))
      = (x1, y1, el_width init + a, el_height init + b)"
    unfolding x1_def y1_def by (rule resizeBranch_se_noclamp[OF rot wa hb])
  have r1: "el_rotation init1 = Some r" by (simp add: init1_def rot)
  have w1: "20 \<le> el_width init1 + - a" using w by (simp add: init1_def)
  have h1: "20 \<le> el_height init1 + - b" using h by (simp add: init1_def)
  have second: "resizeBranch False (Some ''se'') init1
                 (fst (rotatePoint (- a) (- b) r)) (snd (rotatePoint (- a) (- b) r))
      = (el_x init, el_y init, el_width init, el_height init)"
    unfolding resizeBranch_se_noclamp[OF r1 w1 h1]
    using rotatePoint_neg[of "a / 2" "b / 2" r]
    by (simp add: init1_def x1_def y1_def)
  show ?thesis
    unfolding first using second by (simp add: init1_def)
qed

text \<open>
  C6. For an element at rotation 45 degrees, with snapping off and no clamp engaged, a
  resize by the south-east handle with local delta \<open>(dW, dH)\<close> followed by one with local
  delta \<open>(- dW, - dH)\<close> returns the original x, y, width and height. The pointer delta that
  gives local delta \<open>(dW, dH)\<close> is \<open>rotatePoint dW dH 45\<close>. Over the reals the values are
  equal, not only close.
\<close>

theorem resize_round_trip:
  assumes "el_rotation init = Some 45"
    and "20 \<le> el_width init" and "20 \<le> el_height init"
    and "20 \<le> el_width init + dW" and "20 \<le> el_height init + dH"
  shows "(case resizeBranch False (Some ''se'') init
                 (fst (rotatePoint dW dH 45)) (snd (rotatePoint dW dH 45)) of
            (x1, y1, w1, h1) \<Rightarrow>
              resizeBranch False (Some ''se'')
                (init\<lparr>el_x := x1, el_y := y1, el_width := w1, el_height := h1\<rparr>)
                (fst (rotatePoint (- dW) (- dH) 45)) (snd (rotatePoint (- dW) (- dH) 45)))
         = (el_x init, el_y init, el_width init, el_height init)"
  using assms by (rule resize_round_trip_any_rotation)


lemma resizingDocument_fields:
  "dragState resizingDocument =
     Some \<lparr>isDragging = False, isResizing = True, isRotating = False,
           resizeHandle = Some ''se'', startX = 260, startY = 200,
           initialElement = Some exampleRectangle\<rparr>"
  "sel_id (selection resizingDocument) = Some ''e1''"
  "snapToGrid resizingDocument"
  "elements resizingDocument = [exampleRectangle]"
  "scale resizingDocument = 1"
  "historySnapshot resizingDocument = Some (getCurrentState rectangleDocument)"
  "\<not> dragInteractedRef resizingDocument"
  by (simp_all add: resizingDocument_def handlePointerDownResize_def toggleSnap_def
      getPointerCoords_def Let_def rectangleDocument_fields exampleRectangle_fields
      exampleDom_fields getCurrentState_def)

theorem resize_move_min_size_witness:
  "map_option isResizing (dragState resizingDocument) = Some True \<and>
   map_option isDragging (dragState resizingDocument) = Some False \<and>
   map_option isRotating (dragState resizingDocument) = Some False \<and>
   map_option initialElement (dragState resizingDocument) = Some (Some exampleRectangle) \<and>
   sel_id (selection resizingDocument) = Some ''e1'' \<and>
   snapToGrid resizingDocument \<and>
   el_id (last (elements (handlePointerMove exampleDom \<lparr>clientX = 0, clientY = 0\<rparr>
      resizingDocument))) = ''e1'' \<and>
   el_width (last (elements (handlePointerMove exampleDom \<lparr>clientX = 0, clientY = 0\<rparr>
      resizingDocument))) = 20 \<and>
   el_height (last (elements (handlePointerMove exampleDom \<lparr>clientX = 0, clientY = 0\<rparr>
      resizingDocument))) = 20 \<and>
   GRID_SIZE \<le> el_width (last (elements (handlePointerMove exampleDom
      \<lparr>clientX = 0, clientY = 0\<rparr> resizingDocument))) \<and>
   GRID_SIZE \<le> el_height (last (elements (handlePointerMove exampleDom
      \<lparr>clientX = 0, clientY = 0\<rparr> resizingDocument))) \<and>
   (\<exists>m n :: int.
      el_width (last (elements (handlePointerMove exampleDom
        \<lparr>clientX = 0, clientY = 0\<rparr> resizingDocument))) = of_int m * GRID_SIZE \<and>
      el_height (last (elements (handlePointerMove exampleDom
        \<lparr>clientX = 0, clientY = 0\<rparr> resizingDocument))) = of_int n * GRID_SIZE)"
proof -
  define ds where "ds = \<lparr>isDragging = False, isResizing = True, isRotating = False,
           resizeHandle = Some ''se'', startX = 260, startY = 200,
           initialElement = Some exampleRectangle\<rparr>"
  define ev where "ev = \<lparr>clientX = 0, clientY = 0\<rparr>"
  define m where "m = handlePointerMove exampleDom ev resizingDocument"
  have d: "dragState resizingDocument = Some ds"
    by (simp add: ds_def resizingDocument_fields)
  have f: "\<not> isDragging ds" "\<not> isRotating ds" "isResizing ds"
    "initialElement ds = Some exampleRectangle"
    by (simp_all add: ds_def)
  have sl: "sel_id (selection resizingDocument) = Some ''e1''" and ne: "''e1'' \<noteq> []"
    by (simp_all add: resizingDocument_fields)
  have rp: "rotatePoint a b 0 = (a, b)" for a b
    by (simp add: rotatePoint_def)
  have mr: "Math_round 1 = 1"
    by (simp add: Math_round_def)
  have rb: "resizeBranch (snapToGrid resizingDocument) (resizeHandle ds)
      exampleRectangle
      (fst (getPointerCoords exampleDom resizingDocument (clientX ev) (clientY ev)
         (el_pageId exampleRectangle)) - startX ds)
      (snd (getPointerCoords exampleDom resizingDocument (clientX ev) (clientY ev)
         (el_pageId exampleRectangle)) - startY ds) = (100, 100, 20, 20)"
    by (simp add: resizeBranch_def Let_def resizingDocument_fields exampleRectangle_fields
        exampleDom_fields getPointerCoords_def ds_def ev_def rp mr resizeDeltas_def
        resizeAnchor_def MIN_SIZE_def GRID_SIZE_def)
  note mv = pointerMove_resize[OF d f(1) f(2) f(3) f(4) sl ne rb, folded m_def]
  have l: "last (elements m) \<in> set (elements m)" and i: "el_id (last (elements m)) = ''e1''"
    and v: "el_width (last (elements m)) = 20" "el_height (last (elements m)) = 20"
    by (simp_all add: mv resizingDocument_fields exampleRectangle_fields)
  from resize_move_min_size[OF d f(1) f(2) f(3) f(4) sl ne, of exampleDom ev, folded m_def] l i
  have "(if snapToGrid resizingDocument then GRID_SIZE else 20) \<le> el_width (last (elements m)) \<and>
        (if snapToGrid resizingDocument then GRID_SIZE else 20) \<le> el_height (last (elements m)) \<and>
        20 \<le> el_width (last (elements m)) \<and> 20 \<le> el_height (last (elements m)) \<and>
        (snapToGrid resizingDocument \<longrightarrow>
          (\<exists>m' n :: int. el_width (last (elements m)) = of_int m' * GRID_SIZE \<and>
                          el_height (last (elements m)) = of_int n * GRID_SIZE))"
    by blast
  then have "GRID_SIZE \<le> el_width (last (elements m)) \<and>
        GRID_SIZE \<le> el_height (last (elements m)) \<and>
        (\<exists>m' n :: int. el_width (last (elements m)) = of_int m' * GRID_SIZE \<and>
                          el_height (last (elements m)) = of_int n * GRID_SIZE)"
    by (simp add: resizingDocument_fields)
  then show ?thesis
    using i v unfolding m_def ev_def by (simp add: resizingDocument_fields)
qed

lemma rotatedRectangle_fields:
  "el_rotation rotatedRectangle = Some 45"
  "el_width rotatedRectangle = 160"
  "el_height rotatedRectangle = 100"
  by (simp_all add: rotatedRectangle_def exampleRectangle_fields)

theorem resize_round_trip_witness:
  "el_rotation rotatedRectangle = Some 45 \<and>
   20 \<le> el_width rotatedRectangle \<and> 20 \<le> el_height rotatedRectangle \<and>
   20 \<le> el_width rotatedRectangle + 40 \<and> 20 \<le> el_height rotatedRectangle + 20 \<and>
   (case resizeBranch False (Some ''se'') rotatedRectangle
           (fst (rotatePoint 40 20 45)) (snd (rotatePoint 40 20 45)) of
      (x1, y1, w1, h1) \<Rightarrow>
        resizeBranch False (Some ''se'')
          (rotatedRectangle\<lparr>el_x := x1, el_y := y1, el_width := w1, el_height := h1\<rparr>)
          (fst (rotatePoint (- 40) (- 20) 45)) (snd (rotatePoint (- 40) (- 20) 45)))
     = (el_x rotatedRectangle, el_y rotatedRectangle,
        el_width rotatedRectangle, el_height rotatedRectangle)"
proof -
  have h: "el_rotation rotatedRectangle = Some 45"
    "20 \<le> el_width rotatedRectangle" "20 \<le> el_height rotatedRectangle"
    "20 \<le> el_width rotatedRectangle + 40" "20 \<le> el_height rotatedRectangle + 20"
    by (simp_all add: rotatedRectangle_fields)
  show ?thesis
    by (intro conjI h resize_round_trip[OF h])
qed

section \<open>Gestures and history\<close>

lemma pointerUp_push:
  assumes "dragState g = Some ds" and "historySnapshot g = Some h"
  shows "past (handlePointerUp g) = (if dragInteractedRef g then past g @ [h] else past g)"
    and "future (handlePointerUp g) = (if dragInteractedRef g then [] else future g)"
  using assms by (simp_all add: handlePointerUp_def)

lemma pointerUp_idle: "dragState s = None \<Longrightarrow> handlePointerUp s = s"
  by (simp add: handlePointerUp_def)

lemma down_up_element:
  assumes "dragState s = None" and "\<not> (isDoubleClick s now el \<and> el_type el = TEXT)"
  shows "past (handlePointerUp (handlePointerDownElement dm e now el s)) = past s"
proof -
  have b: "\<not> isDoubleClick s now el \<or> el_type el \<noteq> TEXT"
    using assms(2) by blast
  show ?thesis
    unfolding handlePointerDownElement_def Let_def
    using assms(1) b by (auto simp add: handlePointerUp_def)
qed

lemma down_up_resize:
  "past (handlePointerUp (handlePointerDownResize dm e handle el s)) = past s"
  by (simp add: handlePointerDownResize_def handlePointerUp_def Let_def)

lemma down_up_rotate:
  "past (handlePointerUp (handlePointerDownRotate dm e el s)) = past s"
  by (simp add: handlePointerDownRotate_def handlePointerUp_def Let_def)

lemma pointerMove_interacted:
  assumes "dragState s = Some ds" and "truthy (sel_id (selection s))"
  shows "dragInteractedRef (handlePointerMove dm e s)"
    and "dragState (handlePointerMove dm e s) = Some ds"
    and "historySnapshot (handlePointerMove dm e s) = historySnapshot s"
    and "past (handlePointerMove dm e s) = past s"
  using assms
  by (auto simp add: handlePointerMove_def Let_def handleUpdateElement_def truthy_def
      split: option.splits prod.splits)


lemma move_up_push:
  assumes "dragState d = Some ds" and "historySnapshot d = Some h"
    and "truthy (sel_id (selection d))"
  shows "past (handlePointerUp (handlePointerMove dm e d)) = past d @ [h]"
    and "future (handlePointerUp (handlePointerMove dm e d)) = []"
  using pointerMove_interacted[OF assms(1) assms(3), of dm e] assms(2)
  by (simp_all add: handlePointerUp_def)

lemma resize_gesture_push:
  assumes "truthy (sel_id (selection s))"
  shows "past (handlePointerUp (handlePointerMove dm e'
           (handlePointerDownResize dm e handle el s))) = past s @ [getCurrentState s]"
    and "future (handlePointerUp (handlePointerMove dm e'
           (handlePointerDownResize dm e handle el s))) = []"
proof -
  define d where "d = handlePointerDownResize dm e handle el s"
  have 1: "\<exists>ds. dragState d = Some ds" "historySnapshot d = Some (getCurrentState s)"
    "truthy (sel_id (selection d))" "past d = past s"
    using assms by (simp_all add: d_def handlePointerDownResize_def Let_def)
  then obtain ds where ds: "dragState d = Some ds" by blast
  show "past (handlePointerUp (handlePointerMove dm e'
           (handlePointerDownResize dm e handle el s))) = past s @ [getCurrentState s]"
    and "future (handlePointerUp (handlePointerMove dm e'
           (handlePointerDownResize dm e handle el s))) = []"
    using move_up_push[OF ds 1(2) 1(3), of dm e'] 1(4) by (simp_all add: d_def)
qed

lemma rotate_gesture_push:
  assumes "truthy (sel_id (selection s))"
  shows "past (handlePointerUp (handlePointerMove dm e'
           (handlePointerDownRotate dm e el s))) = past s @ [getCurrentState s]"
    and "future (handlePointerUp (handlePointerMove dm e'
           (handlePointerDownRotate dm e el s))) = []"
proof -
  define d where "d = handlePointerDownRotate dm e el s"
  have 1: "\<exists>ds. dragState d = Some ds" "historySnapshot d = Some (getCurrentState s)"
    "truthy (sel_id (selection d))" "past d = past s"
    using assms by (simp_all add: d_def handlePointerDownRotate_def Let_def)
  then obtain ds where ds: "dragState d = Some ds" by blast
  show "past (handlePointerUp (handlePointerMove dm e'
           (handlePointerDownRotate dm e el s))) = past s @ [getCurrentState s]"
    and "future (handlePointerUp (handlePointerMove dm e'
           (handlePointerDownRotate dm e el s))) = []"
    using move_up_push[OF ds 1(2) 1(3), of dm e'] 1(4) by (simp_all add: d_def)
qed

lemma drag_gesture_push:
  assumes nm: "\<not> isMarkupMode s"
    and ne: "\<not> (isEditingText (selection s) \<and> sel_id (selection s) = Some (el_id el))"
    and nd: "\<not> (isDoubleClick s now el \<and> el_type el = TEXT)"
    and id: "el_id el \<noteq> []"
  shows "past (dragGesture dm e e' now el s) = past s @ [getCurrentState s]"
    and "future (dragGesture dm e e' now el s) = []"
proof -
  define d where "d = handlePointerDownElement dm e now el s"
  have a: "\<not> isEditingText (selection s) \<or> sel_id (selection s) \<noteq> Some (el_id el)"
    using ne by blast
  have b: "\<not> isDoubleClick s now el \<or> el_type el \<noteq> TEXT"
    using nd by blast
  have 1: "\<exists>ds. dragState d = Some ds" "historySnapshot d = Some (getCurrentState s)"
    "truthy (sel_id (selection d))" "past d = past s"
    unfolding d_def handlePointerDownElement_def Let_def
    using nm a b id by (auto simp add: truthy_def)
  then obtain ds where ds: "dragState d = Some ds" by blast
  show "past (dragGesture dm e e' now el s) = past s @ [getCurrentState s]"
    and "future (dragGesture dm e e' now el s) = []"
    using move_up_push[OF ds 1(2) 1(3), of dm e'] 1(4) by (simp_all add: d_def dragGesture_def)
qed

lemma ink_tap_push:
  assumes "isMarkupMode k" and "pageId \<noteq> []"
    and "markupCanvasRefs dm pageId = Some canvas" and "cv_hasContext canvas"
  shows "past (handlePointerUpMarkup dm' (handlePointerDownMarkup dm e pageId k))
           = past k @ [getCurrentState k]"
    and "future (handlePointerUpMarkup dm' (handlePointerDownMarkup dm e pageId k)) = []"
  using assms
  by (simp_all add: handlePointerDownMarkup_def handlePointerUpMarkup_def Let_def
      split: option.splits)

text \<open>Gestures with any number of moves.\<close>

lemma pointerMove_keeps:
  "selection (handlePointerMove dm e s) = selection s"
  "future (handlePointerMove dm e s) = future s"
  by (auto simp add: handlePointerMove_def Let_def handleUpdateElement_def
      split: option.splits prod.splits)

lemma pointerMoves_inv:
  assumes "dragState s = Some ds" and "truthy (sel_id (selection s))"
  shows "dragState (pointerMoves dm es s) = Some ds \<and>
         selection (pointerMoves dm es s) = selection s \<and>
         historySnapshot (pointerMoves dm es s) = historySnapshot s \<and>
         past (pointerMoves dm es s) = past s \<and>
         (es \<noteq> [] \<longrightarrow> dragInteractedRef (pointerMoves dm es s))"
  using assms
proof (induction es arbitrary: s)
  case Nil
  then show ?case by simp
next
  case (Cons e es)
  define s1 where "s1 = handlePointerMove dm e s"
  note st = pointerMove_interacted[OF Cons.prems, of dm e, folded s1_def]
    pointerMove_keeps(1)[of dm e s, folded s1_def]
  have t1: "truthy (sel_id (selection s1))" using Cons.prems(2) st by simp
  from Cons.IH[OF st(2) t1] st show ?case
    by (cases es) (simp_all add: s1_def)
qed

lemma moves_up_push:
  assumes "dragState d = Some ds" and "historySnapshot d = Some h"
    and "truthy (sel_id (selection d))" and "es \<noteq> []"
  shows "past (handlePointerUp (pointerMoves dm es d)) = past d @ [h]"
    and "future (handlePointerUp (pointerMoves dm es d)) = []"
  using pointerMoves_inv[OF assms(1) assms(3), of dm es] assms(2) assms(4)
  by (simp_all add: handlePointerUp_def)

lemma drag_moves_push:
  assumes nm: "\<not> isMarkupMode s"
    and ne: "\<not> (isEditingText (selection s) \<and> sel_id (selection s) = Some (el_id el))"
    and nd: "\<not> (isDoubleClick s now el \<and> el_type el = TEXT)"
    and id: "el_id el \<noteq> []" and es: "es \<noteq> []"
  shows "past (handlePointerUp (pointerMoves dmm es (handlePointerDownElement dm e now el s)))
           = past s @ [\<lparr>h_elements = elements s, h_markup = markupData s, h_pages = pages s\<rparr>]"
    and "future (handlePointerUp (pointerMoves dmm es (handlePointerDownElement dm e now el s)))
           = []"
proof -
  define d where "d = handlePointerDownElement dm e now el s"
  have a: "\<not> isEditingText (selection s) \<or> sel_id (selection s) \<noteq> Some (el_id el)"
    using ne by blast
  have b: "\<not> isDoubleClick s now el \<or> el_type el \<noteq> TEXT"
    using nd by blast
  have 1: "\<exists>ds. dragState d = Some ds" "historySnapshot d = Some (getCurrentState s)"
    "truthy (sel_id (selection d))" "past d = past s"
    unfolding d_def handlePointerDownElement_def Let_def
    using nm a b id by (auto simp add: truthy_def)
  then obtain ds where ds: "dragState d = Some ds" by blast
  show "past (handlePointerUp (pointerMoves dmm es (handlePointerDownElement dm e now el s)))
           = past s @ [\<lparr>h_elements = elements s, h_markup = markupData s, h_pages = pages s\<rparr>]"
    and "future (handlePointerUp (pointerMoves dmm es (handlePointerDownElement dm e now el s)))
           = []"
    using moves_up_push[OF ds 1(2) 1(3) es, of dmm] 1(4)
    by (simp_all add: d_def getCurrentState_def)
qed

lemma resize_moves_push:
  assumes "truthy (sel_id (selection s))" and es: "es \<noteq> []"
  shows "past (handlePointerUp (pointerMoves dmm es (handlePointerDownResize dm e handle el s)))
           = past s @ [\<lparr>h_elements = elements s, h_markup = markupData s, h_pages = pages s\<rparr>]"
    and "future (handlePointerUp (pointerMoves dmm es (handlePointerDownResize dm e handle el s)))
           = []"
proof -
  define d where "d = handlePointerDownResize dm e handle el s"
  have 1: "\<exists>ds. dragState d = Some ds" "historySnapshot d = Some (getCurrentState s)"
    "truthy (sel_id (selection d))" "past d = past s"
    using assms(1) by (simp_all add: d_def handlePointerDownResize_def Let_def)
  then obtain ds where ds: "dragState d = Some ds" by blast
  show "past (handlePointerUp (pointerMoves dmm es (handlePointerDownResize dm e handle el s)))
           = past s @ [\<lparr>h_elements = elements s, h_markup = markupData s, h_pages = pages s\<rparr>]"
    and "future (handlePointerUp (pointerMoves dmm es (handlePointerDownResize dm e handle el s)))
           = []"
    using moves_up_push[OF ds 1(2) 1(3) es, of dmm] 1(4)
    by (simp_all add: d_def getCurrentState_def)
qed

lemma rotate_moves_push:
  assumes "truthy (sel_id (selection s))" and es: "es \<noteq> []"
  shows "past (handlePointerUp (pointerMoves dmm es (handlePointerDownRotate dm e el s)))
           = past s @ [\<lparr>h_elements = elements s, h_markup = markupData s, h_pages = pages s\<rparr>]"
    and "future (handlePointerUp (pointerMoves dmm es (handlePointerDownRotate dm e el s)))
           = []"
proof -
  define d where "d = handlePointerDownRotate dm e el s"
  have 1: "\<exists>ds. dragState d = Some ds" "historySnapshot d = Some (getCurrentState s)"
    "truthy (sel_id (selection d))" "past d = past s"
    using assms(1) by (simp_all add: d_def handlePointerDownRotate_def Let_def)
  then obtain ds where ds: "dragState d = Some ds" by blast
  show "past (handlePointerUp (pointerMoves dmm es (handlePointerDownRotate dm e el s)))
           = past s @ [\<lparr>h_elements = elements s, h_markup = markupData s, h_pages = pages s\<rparr>]"
    and "future (handlePointerUp (pointerMoves dmm es (handlePointerDownRotate dm e el s)))
           = []"
    using moves_up_push[OF ds 1(2) 1(3) es, of dmm] 1(4)
    by (simp_all add: d_def getCurrentState_def)
qed

lemma pointerMoveMarkup_keeps:
  "isDrawingRef (handlePointerMoveMarkup dm e s) = isDrawingRef s"
  "currentDrawingPageIdRef (handlePointerMoveMarkup dm e s) = currentDrawingPageIdRef s"
  "historySnapshot (handlePointerMoveMarkup dm e s) = historySnapshot s"
  "past (handlePointerMoveMarkup dm e s) = past s"
  "markupData (handlePointerMoveMarkup dm e s) = markupData s"
  by (simp_all add: handlePointerMoveMarkup_def split: option.splits)

lemma markupMoves_keeps:
  "isDrawingRef (markupMoves dm ms s) = isDrawingRef s \<and>
   currentDrawingPageIdRef (markupMoves dm ms s) = currentDrawingPageIdRef s \<and>
   historySnapshot (markupMoves dm ms s) = historySnapshot s \<and>
   past (markupMoves dm ms s) = past s \<and>
   markupData (markupMoves dm ms s) = markupData s"
  by (induction ms arbitrary: s) (simp_all add: pointerMoveMarkup_keeps)

lemma ink_stroke_push:
  assumes "isMarkupMode k" and "pageId \<noteq> []"
    and "markupCanvasRefs dm pageId = Some canvas" and "cv_hasContext canvas"
  shows "past (handlePointerUpMarkup dmu (markupMoves dmm ms (handlePointerDownMarkup dm e pageId k)))
           = past k @ [\<lparr>h_elements = elements k, h_markup = markupData k, h_pages = pages k\<rparr>]"
    and "future (handlePointerUpMarkup dmu
           (markupMoves dmm ms (handlePointerDownMarkup dm e pageId k))) = []"
proof -
  define d where "d = handlePointerDownMarkup dm e pageId k"
  have 1: "isDrawingRef d" "currentDrawingPageIdRef d = Some pageId"
    "historySnapshot d = Some (getCurrentState k)" "past d = past k"
    using assms by (simp_all add: d_def handlePointerDownMarkup_def Let_def)
  define m where "m = markupMoves dmm ms d"
  have 2: "isDrawingRef m" "currentDrawingPageIdRef m = Some pageId"
    "historySnapshot m = Some (getCurrentState k)" "past m = past k"
    using markupMoves_keeps[of dmm ms d] 1 by (simp_all add: m_def)
  have "past (handlePointerUpMarkup dmu m) = past k @ [getCurrentState k]"
    and "future (handlePointerUpMarkup dmu m) = []"
    using 2 assms(2) by (simp_all add: handlePointerUpMarkup_def Let_def split: option.splits)
  then show "past (handlePointerUpMarkup dmu
           (markupMoves dmm ms (handlePointerDownMarkup dm e pageId k)))
           = past k @ [\<lparr>h_elements = elements k, h_markup = markupData k, h_pages = pages k\<rparr>]"
    and "future (handlePointerUpMarkup dmu
           (markupMoves dmm ms (handlePointerDownMarkup dm e pageId k))) = []"
    by (simp_all add: m_def d_def getCurrentState_def)
qed

text \<open>Completed gestures are committed mutations in the sense of \<open>committed\<close>.\<close>

lemma dragGesture_committed:
  assumes "\<not> isMarkupMode s"
    and "\<not> (isEditingText (selection s) \<and> sel_id (selection s) = Some (el_id el))"
    and "\<not> (isDoubleClick s now el \<and> el_type el = TEXT)"
    and "el_id el \<noteq> []"
  shows "committed s (dragGesture dm e e' now el s)"
  using drag_gesture_push[OF assms] by (simp add: committed_iff)

lemma inkStroke_committed:
  assumes "isMarkupMode k" and "pageId \<noteq> []"
    and "markupCanvasRefs dm pageId = Some canvas" and "cv_hasContext canvas"
  shows "committed k (handlePointerUpMarkup dm' (handlePointerDownMarkup dm e pageId k))"
  using ink_tap_push[OF assms] by (simp add: committed_iff)

text \<open>
  C3. What a gesture leaves on \<open>past\<close> is decided by whether a pointer-move was handled,
  not by whether the document changed. At gesture end the gesture-start snapshot is pushed
  and \<open>future\<close> cleared exactly when the interaction flag is set. Pointer-down on an element
  (outside the double-click path), on a resize handle or on the rotate handle, followed at
  once by pointer-up, leaves \<open>past\<close> as it was. A drag, resize or rotate gesture with one or
  more handled moves \<open>es\<close> pushes the elements, ink map and pages of the state at
  pointer-down and clears \<open>future\<close>. An ink stroke that began drawing does the same at stroke
  end for every list of moves \<open>ms\<close>, the empty one included.
\<close>

theorem gesture_history:
  "(dragState g = Some ds \<and> historySnapshot g = Some h \<longrightarrow>
      past (handlePointerUp g) = (if dragInteractedRef g then past g @ [h] else past g) \<and>
      future (handlePointerUp g) = (if dragInteractedRef g then [] else future g)) \<and>
   (dragState s = None \<and> \<not> (isDoubleClick s now el \<and> el_type el = TEXT) \<longrightarrow>
      past (handlePointerUp (handlePointerDownElement dm e now el s)) = past s) \<and>
   past (handlePointerUp (handlePointerDownResize dm e handle el s)) = past s \<and>
   past (handlePointerUp (handlePointerDownRotate dm e el s)) = past s \<and>
   (\<not> isMarkupMode s \<and>
    \<not> (isEditingText (selection s) \<and> sel_id (selection s) = Some (el_id el)) \<and>
    \<not> (isDoubleClick s now el \<and> el_type el = TEXT) \<and> el_id el \<noteq> [] \<and> es \<noteq> [] \<longrightarrow>
      past (handlePointerUp (pointerMoves dmm es (handlePointerDownElement dm e now el s)))
        = past s @ [\<lparr>h_elements = elements s, h_markup = markupData s, h_pages = pages s\<rparr>] \<and>
      future (handlePointerUp (pointerMoves dmm es (handlePointerDownElement dm e now el s)))
        = []) \<and>
   (truthy (sel_id (selection s)) \<and> es \<noteq> [] \<longrightarrow>
      past (handlePointerUp (pointerMoves dmm es (handlePointerDownResize dm e handle el s)))
        = past s @ [\<lparr>h_elements = elements s, h_markup = markupData s, h_pages = pages s\<rparr>] \<and>
      future (handlePointerUp (pointerMoves dmm es (handlePointerDownResize dm e handle el s)))
        = [] \<and>
      past (handlePointerUp (pointerMoves dmm es (handlePointerDownRotate dm e el s)))
        = past s @ [\<lparr>h_elements = elements s, h_markup = markupData s, h_pages = pages s\<rparr>] \<and>
      future (handlePointerUp (pointerMoves dmm es (handlePointerDownRotate dm e el s)))
        = []) \<and>
   (isMarkupMode k \<and> pageId \<noteq> [] \<and> markupCanvasRefs dm pageId = Some canvas \<and>
    cv_hasContext canvas \<longrightarrow>
      past (handlePointerUpMarkup dmu
              (markupMoves dmm ms (handlePointerDownMarkup dm e pageId k)))
        = past k @ [\<lparr>h_elements = elements k, h_markup = markupData k, h_pages = pages k\<rparr>] \<and>
      future (handlePointerUpMarkup dmu
              (markupMoves dmm ms (handlePointerDownMarkup dm e pageId k))) = [])"
proof (intro conjI impI)
  assume a: "dragState g = Some ds \<and> historySnapshot g = Some h"
  then have 1: "dragState g = Some ds" and 2: "historySnapshot g = Some h" by simp_all
  show "past (handlePointerUp g) = (if dragInteractedRef g then past g @ [h] else past g)"
    by (rule pointerUp_push(1)[OF 1 2])
  show "future (handlePointerUp g) = (if dragInteractedRef g then [] else future g)"
    by (rule pointerUp_push(2)[OF 1 2])
next
  assume "dragState s = None \<and> \<not> (isDoubleClick s now el \<and> el_type el = TEXT)"
  then have 1: "dragState s = None"
    and 2: "\<not> (isDoubleClick s now el \<and> el_type el = TEXT)" by simp_all
  show "past (handlePointerUp (handlePointerDownElement dm e now el s)) = past s"
    by (rule down_up_element[OF 1 2])
next
  show "past (handlePointerUp (handlePointerDownResize dm e handle el s)) = past s"
    by (rule down_up_resize)
next
  show "past (handlePointerUp (handlePointerDownRotate dm e el s)) = past s"
    by (rule down_up_rotate)
next
  assume "\<not> isMarkupMode s \<and>
    \<not> (isEditingText (selection s) \<and> sel_id (selection s) = Some (el_id el)) \<and>
    \<not> (isDoubleClick s now el \<and> el_type el = TEXT) \<and> el_id el \<noteq> [] \<and> es \<noteq> []"
  then have 1: "\<not> isMarkupMode s"
    and 2: "\<not> (isEditingText (selection s) \<and> sel_id (selection s) = Some (el_id el))"
    and 3: "\<not> (isDoubleClick s now el \<and> el_type el = TEXT)"
    and 4: "el_id el \<noteq> []" and 5: "es \<noteq> []" by simp_all
  show "past (handlePointerUp (pointerMoves dmm es (handlePointerDownElement dm e now el s)))
        = past s @ [\<lparr>h_elements = elements s, h_markup = markupData s, h_pages = pages s\<rparr>]"
    by (rule drag_moves_push(1)[OF 1 2 3 4 5])
  show "future (handlePointerUp (pointerMoves dmm es (handlePointerDownElement dm e now el s)))
        = []"
    by (rule drag_moves_push(2)[OF 1 2 3 4 5])
next
  assume "truthy (sel_id (selection s)) \<and> es \<noteq> []"
  then have t: "truthy (sel_id (selection s))" and n: "es \<noteq> []" by simp_all
  show "past (handlePointerUp (pointerMoves dmm es (handlePointerDownResize dm e handle el s)))
        = past s @ [\<lparr>h_elements = elements s, h_markup = markupData s, h_pages = pages s\<rparr>]"
    by (rule resize_moves_push(1)[OF t n])
  show "future (handlePointerUp (pointerMoves dmm es (handlePointerDownResize dm e handle el s)))
        = []"
    by (rule resize_moves_push(2)[OF t n])
  show "past (handlePointerUp (pointerMoves dmm es (handlePointerDownRotate dm e el s)))
        = past s @ [\<lparr>h_elements = elements s, h_markup = markupData s, h_pages = pages s\<rparr>]"
    by (rule rotate_moves_push(1)[OF t n])
  show "future (handlePointerUp (pointerMoves dmm es (handlePointerDownRotate dm e el s)))
        = []"
    by (rule rotate_moves_push(2)[OF t n])
next
  assume "isMarkupMode k \<and> pageId \<noteq> [] \<and> markupCanvasRefs dm pageId = Some canvas \<and>
    cv_hasContext canvas"
  then have 1: "isMarkupMode k" and 2: "pageId \<noteq> []"
    and 3: "markupCanvasRefs dm pageId = Some canvas" and 4: "cv_hasContext canvas"
    by simp_all
  show "past (handlePointerUpMarkup dmu
              (markupMoves dmm ms (handlePointerDownMarkup dm e pageId k)))
        = past k @ [\<lparr>h_elements = elements k, h_markup = markupData k, h_pages = pages k\<rparr>]"
    by (rule ink_stroke_push(1)[OF 1 2 3 4])
  show "future (handlePointerUpMarkup dmu
              (markupMoves dmm ms (handlePointerDownMarkup dm e pageId k))) = []"
    by (rule ink_stroke_push(2)[OF 1 2 3 4])
qed

lemma inkDocument_fields:
  "isMarkupMode inkDocument"
  "markupData inkDocument = [''p1'' \<mapsto> ''data:ink'']"
  "elements inkDocument = []"
  "pages inkDocument = [\<lparr>page_id = ''p1''\<rparr>]"
  "past inkDocument = []"
  by (simp_all add: inkDocument_def handleToggleMarkup_def initialState_def)

theorem gesture_history_witness:
  "dragState resizingDocument \<noteq> None \<and>
   historySnapshot resizingDocument = Some (getCurrentState rectangleDocument) \<and>
   \<not> dragInteractedRef resizingDocument \<and>
   past (handlePointerUp resizingDocument) = past resizingDocument \<and>
   future (handlePointerUp resizingDocument) = future resizingDocument \<and>
   dragState rectangleDocument = None \<and>
   \<not> isDoubleClick rectangleDocument 0 exampleRectangle \<and>
   past (handlePointerUp (handlePointerDownElement exampleDom \<lparr>clientX = 110, clientY = 110\<rparr>
      0 exampleRectangle rectangleDocument)) = past rectangleDocument \<and>
   \<not> isMarkupMode rectangleDocument \<and>
   \<not> isEditingText (selection rectangleDocument) \<and>
   el_id exampleRectangle \<noteq> [] \<and>
   past (handlePointerUp (pointerMoves exampleDom [\<lparr>clientX = 113, clientY = 110\<rparr>, \<lparr>clientX = 150, clientY = 130\<rparr>]
      (handlePointerDownElement exampleDom \<lparr>clientX = 110, clientY = 110\<rparr> 0 exampleRectangle rectangleDocument)))
     = past rectangleDocument @ [\<lparr>h_elements = [exampleRectangle], h_markup = Map.empty, h_pages = [\<lparr>page_id = ''p1''\<rparr>]\<rparr>] \<and>
   future (handlePointerUp (pointerMoves exampleDom [\<lparr>clientX = 113, clientY = 110\<rparr>, \<lparr>clientX = 150, clientY = 130\<rparr>]
      (handlePointerDownElement exampleDom \<lparr>clientX = 110, clientY = 110\<rparr> 0 exampleRectangle rectangleDocument))) = [] \<and>
   truthy (sel_id (selection rectangleDocument)) \<and>
   past (handlePointerUp (pointerMoves exampleDom [\<lparr>clientX = 113, clientY = 110\<rparr>, \<lparr>clientX = 150, clientY = 130\<rparr>]
      (handlePointerDownResize exampleDom \<lparr>clientX = 110, clientY = 110\<rparr> ''se'' exampleRectangle rectangleDocument)))
     = past rectangleDocument @ [\<lparr>h_elements = [exampleRectangle], h_markup = Map.empty, h_pages = [\<lparr>page_id = ''p1''\<rparr>]\<rparr>] \<and>
   past (handlePointerUp (pointerMoves exampleDom [\<lparr>clientX = 113, clientY = 110\<rparr>, \<lparr>clientX = 150, clientY = 130\<rparr>]
      (handlePointerDownRotate exampleDom \<lparr>clientX = 110, clientY = 110\<rparr> exampleRectangle rectangleDocument)))
     = past rectangleDocument @ [\<lparr>h_elements = [exampleRectangle], h_markup = Map.empty, h_pages = [\<lparr>page_id = ''p1''\<rparr>]\<rparr>] \<and>
   isMarkupMode inkDocument \<and>
   markupCanvasRefs exampleDom ''p1'' =
     Some \<lparr>cv_left = 0, cv_top = 0, cv_hasContext = True, cv_dataURL = ''data:ink''\<rparr> \<and>
   past (handlePointerUpMarkup exampleDom (markupMoves exampleDom [\<lparr>clientX = 113, clientY = 110\<rparr>, \<lparr>clientX = 150, clientY = 130\<rparr>]
      (handlePointerDownMarkup exampleDom \<lparr>clientX = 110, clientY = 110\<rparr> ''p1'' inkDocument)))
     = past inkDocument @ [\<lparr>h_elements = [], h_markup = [''p1'' \<mapsto> ''data:ink''], h_pages = [\<lparr>page_id = ''p1''\<rparr>]\<rparr>] \<and>
   future (handlePointerUpMarkup exampleDom (markupMoves exampleDom [\<lparr>clientX = 113, clientY = 110\<rparr>, \<lparr>clientX = 150, clientY = 130\<rparr>]
      (handlePointerDownMarkup exampleDom \<lparr>clientX = 110, clientY = 110\<rparr> ''p1'' inkDocument)))
     = []"
proof -
  define ds where "ds = \<lparr>isDragging = False, isResizing = True, isRotating = False,
           resizeHandle = Some ''se'', startX = 260, startY = 200,
           initialElement = Some exampleRectangle\<rparr>"
  define cv where "cv = \<lparr>cv_left = 0, cv_top = 0, cv_hasContext = True,
    cv_dataURL = ''data:ink''\<rparr>"
  define mv where "mv = [\<lparr>clientX = 113, clientY = 110\<rparr>, \<lparr>clientX = 150, clientY = 130\<rparr>]"
  have g: "dragState resizingDocument = Some ds"
    "historySnapshot resizingDocument = Some (getCurrentState rectangleDocument)"
    "\<not> dragInteractedRef resizingDocument"
    by (simp_all add: ds_def resizingDocument_fields)
  have s: "dragState rectangleDocument = None"
    "\<not> isDoubleClick rectangleDocument 0 exampleRectangle"
    "\<not> isMarkupMode rectangleDocument"
    "\<not> isEditingText (selection rectangleDocument)"
    "el_id exampleRectangle \<noteq> []"
    "truthy (sel_id (selection rectangleDocument))"
    by (simp_all add: rectangleDocument_fields exampleRectangle_fields isDoubleClick_def
        truthy_def)
  have n: "mv \<noteq> []" by (simp add: mv_def)
  have k: "isMarkupMode inkDocument" "''p1'' \<noteq> []"
    "markupCanvasRefs exampleDom ''p1'' = Some cv" "cv_hasContext cv"
    by (simp_all add: inkDocument_fields exampleDom_fields cv_def)
  have rd: "\<lparr>h_elements = elements rectangleDocument, h_markup = markupData rectangleDocument,
       h_pages = pages rectangleDocument\<rparr> = \<lparr>h_elements = [exampleRectangle], h_markup = Map.empty, h_pages = [\<lparr>page_id = ''p1''\<rparr>]\<rparr>"
    by (simp add: rectangleDocument_fields)
  have idoc: "\<lparr>h_elements = elements inkDocument, h_markup = markupData inkDocument,
       h_pages = pages inkDocument\<rparr> = \<lparr>h_elements = [], h_markup = [''p1'' \<mapsto> ''data:ink''], h_pages = [\<lparr>page_id = ''p1''\<rparr>]\<rparr>"
    by (simp add: inkDocument_fields)
  note th = gesture_history[where g = resizingDocument and ds = ds
      and h = "getCurrentState rectangleDocument" and s = rectangleDocument and now = 0
      and el = exampleRectangle and dm = exampleDom and e = "\<lparr>clientX = 110, clientY = 110\<rparr>" and handle = "''se''"
      and dmm = exampleDom and es = mv and k = inkDocument and pageId = "''p1''"
      and canvas = cv and dmu = exampleDom and ms = mv, unfolded rd idoc]
  have 1: "past (handlePointerUp resizingDocument) = past resizingDocument"
    "future (handlePointerUp resizingDocument) = future resizingDocument"
    using th g by simp_all
  have 2: "past (handlePointerUp (handlePointerDownElement exampleDom
      \<lparr>clientX = 110, clientY = 110\<rparr> 0 exampleRectangle rectangleDocument))
      = past rectangleDocument"
    using th s by blast
  have 3: "past (handlePointerUp (pointerMoves exampleDom mv
      (handlePointerDownElement exampleDom \<lparr>clientX = 110, clientY = 110\<rparr> 0 exampleRectangle rectangleDocument)))
     = past rectangleDocument @ [\<lparr>h_elements = [exampleRectangle], h_markup = Map.empty, h_pages = [\<lparr>page_id = ''p1''\<rparr>]\<rparr>]"
    "future (handlePointerUp (pointerMoves exampleDom mv
      (handlePointerDownElement exampleDom \<lparr>clientX = 110, clientY = 110\<rparr> 0 exampleRectangle rectangleDocument))) = []"
    using th s n by blast+
  have 4: "past (handlePointerUp (pointerMoves exampleDom mv
      (handlePointerDownResize exampleDom \<lparr>clientX = 110, clientY = 110\<rparr> ''se'' exampleRectangle rectangleDocument)))
     = past rectangleDocument @ [\<lparr>h_elements = [exampleRectangle], h_markup = Map.empty, h_pages = [\<lparr>page_id = ''p1''\<rparr>]\<rparr>]"
    "past (handlePointerUp (pointerMoves exampleDom mv
      (handlePointerDownRotate exampleDom \<lparr>clientX = 110, clientY = 110\<rparr> exampleRectangle rectangleDocument)))
     = past rectangleDocument @ [\<lparr>h_elements = [exampleRectangle], h_markup = Map.empty, h_pages = [\<lparr>page_id = ''p1''\<rparr>]\<rparr>]"
    using th s n by blast+
  have 5: "past (handlePointerUpMarkup exampleDom (markupMoves exampleDom mv
      (handlePointerDownMarkup exampleDom \<lparr>clientX = 110, clientY = 110\<rparr> ''p1'' inkDocument)))
     = past inkDocument @ [\<lparr>h_elements = [], h_markup = [''p1'' \<mapsto> ''data:ink''], h_pages = [\<lparr>page_id = ''p1''\<rparr>]\<rparr>]"
    "future (handlePointerUpMarkup exampleDom (markupMoves exampleDom mv
      (handlePointerDownMarkup exampleDom \<lparr>clientX = 110, clientY = 110\<rparr> ''p1'' inkDocument)))
     = []"
    using th k by blast+
  show ?thesis
    using g s k 1 2 3 4 5 unfolding mv_def cv_def by simp
qed

text \<open>
  With snapping on, a drag of the grid-aligned rectangle by (3, 0) snaps back to where it
  was: the document is unchanged and \<open>past\<close> is one longer. In ink mode, pointer-down and
  pointer-up with no move, on a page whose stored ink equals what the canvas shows, leave
  the document unchanged and \<open>past\<close> one longer.
\<close>

theorem gesture_history_counterexample:
  "getCurrentState (dragGesture exampleDom \<lparr>clientX = 110, clientY = 110\<rparr>
      \<lparr>clientX = 113, clientY = 110\<rparr> 0 exampleRectangle (toggleSnap rectangleDocument))
     = getCurrentState (toggleSnap rectangleDocument) \<and>
   length (past (dragGesture exampleDom \<lparr>clientX = 110, clientY = 110\<rparr>
      \<lparr>clientX = 113, clientY = 110\<rparr> 0 exampleRectangle (toggleSnap rectangleDocument)))
     = Suc (length (past (toggleSnap rectangleDocument))) \<and>
   getCurrentState (handlePointerUpMarkup exampleDom
      (handlePointerDownMarkup exampleDom \<lparr>clientX = 110, clientY = 110\<rparr> ''p1'' inkDocument))
     = getCurrentState inkDocument \<and>
   length (past (handlePointerUpMarkup exampleDom
      (handlePointerDownMarkup exampleDom \<lparr>clientX = 110, clientY = 110\<rparr> ''p1'' inkDocument)))
     = Suc (length (past inkDocument))"
proof -
  define s where "s = toggleSnap rectangleDocument"
  have f: "\<not> isMarkupMode s" "\<not> isEditingText (selection s)" "snapToGrid s" "scale s = 1"
    "elements s = [exampleRectangle]"
    by (simp_all add: s_def toggleSnap_def rectangleDocument_fields)
  have a: "\<not> (isEditingText (selection s) \<and> sel_id (selection s) = Some (el_id exampleRectangle))"
    using f by simp
  have t: "el_type exampleRectangle \<noteq> TEXT" and i: "el_id exampleRectangle \<noteq> []"
    and p: "pageRefs exampleDom (el_pageId exampleRectangle) = Some (0, 0)"
    by (simp_all add: exampleRectangle_fields exampleDom_fields)
  note dg = drag_gesture[OF f(1) a t p i, where ea = "\<lparr>clientX = 110, clientY = 110\<rparr>"
      and eb = "\<lparr>clientX = 113, clientY = 110\<rparr>" and now = 0]
  have rx: "Math_round (103 / 20) * 20 = 100" "Math_round 5 * 20 = 100"
    by (simp_all add: Math_round_def)
  have "exampleRectangle\<lparr>el_x := el_x exampleRectangle, el_y := el_y exampleRectangle\<rparr>
      = exampleRectangle"
    by simp
  then have same: "exampleRectangle\<lparr>el_x := 100, el_y := 100\<rparr> = exampleRectangle"
    by (simp only: exampleRectangle_fields)
  have el: "elements (dragGesture exampleDom \<lparr>clientX = 110, clientY = 110\<rparr>
      \<lparr>clientX = 113, clientY = 110\<rparr> 0 exampleRectangle s) = elements s"
    unfolding dg(1) by (simp add: f snap_def GRID_SIZE_def exampleRectangle_fields rx same)
  have d1: "getCurrentState (dragGesture exampleDom \<lparr>clientX = 110, clientY = 110\<rparr>
      \<lparr>clientX = 113, clientY = 110\<rparr> 0 exampleRectangle s) = getCurrentState s"
    by (simp add: getCurrentState_def el dg)
  have d2: "length (past (dragGesture exampleDom \<lparr>clientX = 110, clientY = 110\<rparr>
      \<lparr>clientX = 113, clientY = 110\<rparr> 0 exampleRectangle s)) = Suc (length (past s))"
    by (simp add: dg)
  define k where "k = handlePointerUpMarkup exampleDom
      (handlePointerDownMarkup exampleDom \<lparr>clientX = 110, clientY = 110\<rparr> ''p1'' inkDocument)"
  have k1: "elements k = elements inkDocument" "pages k = pages inkDocument"
    "markupData k = (markupData inkDocument)(''p1'' \<mapsto> ''data:ink'')"
    "past k = past inkDocument @ [getCurrentState inkDocument]"
    by (simp_all add: k_def handlePointerDownMarkup_def handlePointerUpMarkup_def Let_def
        exampleDom_fields inkDocument_fields)
  have i1: "getCurrentState k = getCurrentState inkDocument"
    by (simp add: getCurrentState_def k1 inkDocument_fields)
  have i2: "length (past k) = Suc (length (past inkDocument))"
    by (simp add: k1)
  show ?thesis
    using d1 d2 i1 i2 by (simp add: s_def k_def)
qed

end
